theory Spec2Isabelle
  imports Complex_Main "HOL-Library.Sublist"
begin

section \<open>JavaScript values used by the services\<close>

text \<open>
  Strings are lists of characters; \<open>length\<close> and \<open>take\<close> stand for \<^verbatim>\<open>.length\<close> and
  \<^verbatim>\<open>.substring(0, n)\<close>, which count UTF-16 code units (an element of the list is one unit).
  Numbers that hold times and delays (milliseconds) are \<open>real\<close>; counters are \<open>nat\<close>.
\<close>

text \<open>\<^verbatim>\<open>s.includes(pat)\<close>: \<open>pat\<close> occurs in \<open>s\<close> as a contiguous run.\<close>

fun str_includes :: "string \<Rightarrow> string \<Rightarrow> bool" where
  "str_includes [] pat = (pat = [])"
| "str_includes (c # cs) pat = (prefix pat (c # cs) \<or> str_includes cs pat)"

text \<open>Template interpolation \<^verbatim>\<open>${n}\<close> of a non-negative integer: its decimal digits.\<close>

definition digit :: "nat \<Rightarrow> char" where
  "digit d = ''0123456789'' ! d"

fun string_of_nat :: "nat \<Rightarrow> string" where
  "string_of_nat n =
     (if n < 10 then [digit n] else string_of_nat (n div 10) @ [digit (n mod 10)])"

declare string_of_nat.simps [simp del]

text \<open>
  A thrown value. Every error of the services is an \<^verbatim>\<open>Error\<close> object with a message; the
  errors of the upstream SDK also carry an HTTP \<^verbatim>\<open>status\<close> and \<^verbatim>\<open>errorDetails\<close>. A detail
  has an optional \<^verbatim>\<open>'@type'\<close> and an optional \<^verbatim>\<open>retryDelay\<close>; the field \<open>retryDelay\<close> holds
  the number of seconds that \<^verbatim>\<open>parseFloat(retryDelay.replace('s', ''))\<close> reads from the
  (non-empty) string, and \<open>None\<close> when the string is absent or empty.
\<close>

record detail =
  atType :: "string option"
  retryDelay :: "real option"

record jserror =
  status :: "nat option"
  message :: string
  errorDetails :: "detail list option"

text \<open>\<^verbatim>\<open>new Error(msg)\<close>: no status, no details.\<close>

definition newError :: "string \<Rightarrow> jserror" where
  "newError msg = \<lparr>status = None, message = msg, errorDetails = None\<rparr>"

section \<open>AIService: the rate budget\<close>

text \<open>
  The fields of \<^verbatim>\<open>AIService\<close>, with the clock that \<^verbatim>\<open>Date.now()\<close> reads, the
  durations passed to \<^verbatim>\<open>sleep\<close> so far (oldest first), and the number of calls made to
  each upstream model. Time passes only in \<^verbatim>\<open>sleep\<close>.
\<close>

record ai_state =
  requestCount :: nat
  requestResetTime :: real
  lastRequestTime :: real
  dailyRequestCount :: nat
  dailyResetTime :: real
  clock :: real
  sleeps :: "real list"
  summaryCalls :: nat
  embeddingCalls :: nat

definition MAX_REQUESTS_PER_MINUTE :: nat where
  "MAX_REQUESTS_PER_MINUTE = 10"

definition MIN_REQUEST_INTERVAL :: real where
  "MIN_REQUEST_INTERVAL = 6000"

text \<open>
  \<^verbatim>\<open>sleep(ms)\<close>: a timer of \<open>ms\<close> milliseconds; a negative delay fires at once. Delays
  stay below the 2147483647 milliseconds above which the runtime would cut a timer short.
\<close>

definition sleep :: "real \<Rightarrow> ai_state \<Rightarrow> ai_state" where
  "sleep ms s = s\<lparr>clock := clock s + max 0 ms, sleeps := sleeps s @ [ms]\<rparr>"

definition quotaExhausted :: jserror where
  "quotaExhausted = newError ''Daily API quota exhausted. Please try again in 24 hours.''"

text \<open>
  \<^verbatim>\<open>waitForRateLimit\<close>. \<open>now\<close> is read once, on entry, and is the value used by every
  later comparison of the call, also after the wait for the minute window.
\<close>

definition waitForRateLimit :: "ai_state \<Rightarrow> (jserror + unit) \<times> ai_state" where
  "waitForRateLimit s0 =
     (let now = clock s0;
          s1 = (if now > requestResetTime s0
                then s0\<lparr>requestCount := 0, requestResetTime := now + 60000\<rparr> else s0);
          s2 = (if now > dailyResetTime s1
                then s1\<lparr>dailyRequestCount := 0, dailyResetTime := now + 86400000\<rparr> else s1)
      in if dailyRequestCount s2 \<ge> 1000 then (Inl quotaExhausted, s2)
         else
           let s3 = (if requestCount s2 \<ge> MAX_REQUESTS_PER_MINUTE
                     then let waitTime = requestResetTime s2 - now;
                              sw = sleep waitTime s2
                          in sw\<lparr>requestCount := 0, requestResetTime := clock sw + 60000\<rparr>
                     else s2);
               timeSinceLastRequest = now - lastRequestTime s3;
               s4 = (if timeSinceLastRequest < MIN_REQUEST_INTERVAL
                     then sleep (MIN_REQUEST_INTERVAL - timeSinceLastRequest) s3 else s3)
           in (Inr (),
               s4\<lparr>requestCount := requestCount s4 + 1,
                  dailyRequestCount := dailyRequestCount s4 + 1,
                  lastRequestTime := clock s4\<rparr>))"

text \<open>\<^verbatim>\<open>resetCounters\<close>.\<close>

definition resetCounters :: "ai_state \<Rightarrow> ai_state" where
  "resetCounters s = s\<lparr>requestCount := 0, requestResetTime := clock s + 60000\<rparr>"

section \<open>The collaborators outside the process\<close>

text \<open>
  A candidate as the news API returns it (\<^verbatim>\<open>NewsArticle\<close>); \<open>sourceName\<close> is
  \<^verbatim>\<open>source.name\<close>, and \<open>image\<close> may be null.
\<close>

record article =
  title :: string
  description :: string
  content :: string
  url :: string
  image :: "string option"
  publishedAt :: string
  sourceName :: string

datatype endpoint = TopHeadlines | Search

text \<open>
  What the process cannot decide: the reply of the summary model and of the embedding model
  to their \<open>k\<close>-th call with a given text (an embedding reply may lack \<^verbatim>\<open>values\<close>), whether
  the \<open>k\<close>-th database query fails, and the reply of the news API to a request.
\<close>

record env =
  summaryModel :: "nat \<Rightarrow> string \<Rightarrow> jserror + string"
  embeddingModel :: "nat \<Rightarrow> string \<Rightarrow> jserror + real list option"
  pgFault :: "nat \<Rightarrow> jserror option"
  gnews :: "endpoint \<Rightarrow> string \<Rightarrow> int \<Rightarrow> jserror + article list"

section \<open>AIService: retry with backoff\<close>

text \<open>The body of the \<^verbatim>\<open>try\<close> block: wait for the rate limit, then call the operation.\<close>

definition attemptCall ::
  "(ai_state \<Rightarrow> (jserror + 'a) \<times> ai_state) \<Rightarrow> ai_state \<Rightarrow> (jserror + 'a) \<times> ai_state" where
  "attemptCall fn s =
     (case waitForRateLimit s of
        (Inl e, s1) \<Rightarrow> (Inl e, s1)
      | (Inr u, s1) \<Rightarrow> fn s1)"

text \<open>
  The delay of the 429 branch. \<open>serverRetryDelay\<close> is what the error suggests, in
  milliseconds: the delay of the first detail whose type mentions \<^verbatim>\<open>RetryInfo\<close>, when
  there is such a detail and it has a delay.
\<close>

definition isRetryInfo :: "detail \<Rightarrow> bool" where
  "isRetryInfo d = (case atType d of None \<Rightarrow> False | Some t \<Rightarrow> str_includes t ''RetryInfo'')"

definition serverRetryDelay :: "jserror \<Rightarrow> real option" where
  "serverRetryDelay error =
     (case errorDetails error of
        None \<Rightarrow> None
      | Some ds \<Rightarrow>
          (case find isRetryInfo ds of
             None \<Rightarrow> None
           | Some retryInfo \<Rightarrow>
               (case retryDelay retryInfo of
                  None \<Rightarrow> None
                | Some seconds \<Rightarrow> Some (seconds * 1000))))"

definition rateLimitDelay :: "jserror \<Rightarrow> real \<Rightarrow> nat \<Rightarrow> real" where
  "rateLimitDelay error initialDelay attempt =
     (let delay = initialDelay * 2 ^ attempt
      in case serverRetryDelay error of
           None \<Rightarrow> delay
         | Some ms \<Rightarrow> max ms delay)"

text \<open>
  The \<^verbatim>\<open>for\<close> loop of \<^verbatim>\<open>retryWithBackoff\<close> from a given \<open>attempt\<close>, and the
  \<^verbatim>\<open>throw\<close> after it.
\<close>

function retryLoop ::
  "(ai_state \<Rightarrow> (jserror + 'a) \<times> ai_state) \<Rightarrow> string \<Rightarrow> nat \<Rightarrow> real \<Rightarrow> nat \<Rightarrow>
   jserror option \<Rightarrow> ai_state \<Rightarrow> (jserror + 'a) \<times> ai_state" where
  "retryLoop fn operation maxRetries initialDelay attempt lastError s =
     (if attempt < maxRetries then
        (case attemptCall fn s of
           (Inr v, s1) \<Rightarrow> (Inr v, s1)
         | (Inl error, s1) \<Rightarrow>
             if status error = Some 404 then
               (Inl (newError (''AI model not available: '' @ message error)), s1)
             else if status error = Some 429 then
               (if attempt < maxRetries - 1 then
                  retryLoop fn operation maxRetries initialDelay (attempt + 1) (Some error)
                    (sleep (rateLimitDelay error initialDelay attempt) s1)
                else
                  (Inl (newError (''Rate limit exceeded after '' @ string_of_nat maxRetries @
                          '' attempts. Please reduce batch size or wait.'')), s1))
             else if attempt < maxRetries - 1 then
               retryLoop fn operation maxRetries initialDelay (attempt + 1) (Some error)
                 (sleep (initialDelay * 2 ^ attempt) s1)
             else (Inl error, s1))
      else
        (Inl (case lastError of
                Some e \<Rightarrow> e
              | None \<Rightarrow> newError (operation @ '' failed after '' @ string_of_nat maxRetries @
                          '' attempts'')), s))"
  by pat_completeness auto
termination
  by (relation "measure (\<lambda>(fn, operation, maxRetries, initialDelay, attempt, lastError, s).
                  maxRetries - attempt)") auto

declare retryLoop.simps [simp del]

definition retryWithBackoff ::
  "(ai_state \<Rightarrow> (jserror + 'a) \<times> ai_state) \<Rightarrow> string \<Rightarrow> nat \<Rightarrow> real \<Rightarrow> ai_state \<Rightarrow>
   (jserror + 'a) \<times> ai_state" where
  "retryWithBackoff fn operation maxRetries initialDelay s =
     retryLoop fn operation maxRetries initialDelay 0 None s"

section \<open>AIService: summary and embedding\<close>

text \<open>
  \<^verbatim>\<open>trim()\<close> on the white space that a \<open>char\<close> can hold: space, tab, line feed,
  vertical tab, form feed, carriage return and the no-break space.
\<close>

definition isSpace :: "char \<Rightarrow> bool" where
  "isSpace c =
     (c \<in> set [CHR '' '', CHR 0x09, CHR 0x0A, CHR 0x0B, CHR 0x0C, CHR 0x0D, CHR 0xA0])"

definition trim :: "string \<Rightarrow> string" where
  "trim t = rev (dropWhile isSpace (rev (dropWhile isSpace t)))"

definition summaryInput :: "string \<Rightarrow> string" where
  "summaryInput text =
     (let maxLength = 3000
      in if length text > maxLength then take maxLength text @ ''...'' else text)"

definition summaryPrompt :: "string \<Rightarrow> string" where
  "summaryPrompt truncatedText =
     ''Summarize this news article in 2-3 concise sentences:'' @ [CHR 0x0A, CHR 0x0A] @
     truncatedText @ [CHR 0x0A, CHR 0x0A] @ ''Summary:''"

definition embeddingInput :: "string \<Rightarrow> string" where
  "embeddingInput text =
     (let maxLength = 2000
      in if length text > maxLength then take maxLength text else text)"

text \<open>The two operations handed to \<^verbatim>\<open>retryWithBackoff\<close>: one upstream call each.\<close>

definition summaryCall :: "env \<Rightarrow> string \<Rightarrow> ai_state \<Rightarrow> (jserror + string) \<times> ai_state" where
  "summaryCall E prompt s =
     (case summaryModel E (summaryCalls s) prompt of
        Inl e \<Rightarrow> (Inl e, s\<lparr>summaryCalls := summaryCalls s + 1\<rparr>)
      | Inr t \<Rightarrow> (Inr (trim t), s\<lparr>summaryCalls := summaryCalls s + 1\<rparr>))"

definition embeddingCall ::
  "env \<Rightarrow> string \<Rightarrow> ai_state \<Rightarrow> (jserror + real list option) \<times> ai_state" where
  "embeddingCall E truncatedText s =
     (embeddingModel E (embeddingCalls s) truncatedText,
      s\<lparr>embeddingCalls := embeddingCalls s + 1\<rparr>)"

text \<open>The \<^verbatim>\<open>catch\<close> of \<^verbatim>\<open>generateSummary\<close> and \<^verbatim>\<open>generateEmbedding\<close>, given the prefix.\<close>

definition rethrow :: "string \<Rightarrow> jserror \<Rightarrow> jserror" where
  "rethrow what error =
     (if status error = Some 429 \<or> str_includes (message error) ''quota''
      then newError ''API quota exceeded. Please reduce batch size or wait.''
      else newError (what @ '' failed: '' @ message error))"

definition generateSummary :: "env \<Rightarrow> string \<Rightarrow> ai_state \<Rightarrow> (jserror + string) \<times> ai_state" where
  "generateSummary E text s =
     (case retryWithBackoff (summaryCall E (summaryPrompt (summaryInput text)))
             ''Summary generation'' 3 3000 s of
        (Inr summary, s1) \<Rightarrow> (Inr summary, s1)
      | (Inl error, s1) \<Rightarrow> (Inl (rethrow ''Summary generation'' error), s1))"

definition generateEmbedding ::
  "env \<Rightarrow> string \<Rightarrow> ai_state \<Rightarrow> (jserror + real list) \<times> ai_state" where
  "generateEmbedding E text s =
     (case retryWithBackoff (embeddingCall E (embeddingInput text))
             ''Embedding generation'' 3 3000 s of
        (Inr embedding, s1) \<Rightarrow>
          (case embedding of
             None \<Rightarrow>
               (Inl (rethrow ''Embedding generation''
                       (newError (''Invalid embedding dimensions: '' @ ''undefined''))), s1)
           | Some vs \<Rightarrow>
               if length vs \<noteq> 768 then
                 (Inl (rethrow ''Embedding generation''
                         (newError (''Invalid embedding dimensions: '' @
                            string_of_nat (length vs)))), s1)
               else (Inr vs, s1))
      | (Inl error, s1) \<Rightarrow> (Inl (rethrow ''Embedding generation'' error), s1))"

text \<open>\<^verbatim>\<open>generateSummaryAndEmbedding\<close>: summary, two seconds of sleep, embedding.\<close>

definition generateSummaryAndEmbedding ::
  "env \<Rightarrow> string \<Rightarrow> ai_state \<Rightarrow> (jserror + string \<times> real list) \<times> ai_state" where
  "generateSummaryAndEmbedding E text s =
     (case generateSummary E text s of
        (Inl error, s1) \<Rightarrow> (Inl error, s1)
      | (Inr summary, s1) \<Rightarrow>
          (case generateEmbedding E text (sleep 2000 s1) of
             (Inl error, s2) \<Rightarrow> (Inl error, s2)
           | (Inr embedding, s2) \<Rightarrow> (Inr (summary, embedding), s2)))"

section \<open>ArticlesRepository\<close>

text \<open>
  A row of the table \<^verbatim>\<open>news_articles\<close> (the columns \<^verbatim>\<open>id\<close> and \<^verbatim>\<open>created_at\<close>, which the
  database fills in, are left out), and the database: the rows in insertion order and the
  number of queries issued so far. Timestamps are kept as the strings they are read from,
  and these strings are taken to be dates.
\<close>

record row =
  row_title :: string
  content_summary :: string
  row_url :: string
  published_at :: string
  embedding :: "real list"
  source :: "string option"
  category :: "string option"
  row_image :: "string option"

record db_state =
  news_articles :: "row list"
  queries :: nat

text \<open>The argument of \<^verbatim>\<open>create\<close>.\<close>

record new_article =
  na_title :: string
  na_summary :: string
  na_url :: string
  na_publishedAt :: string
  na_embedding :: "real list"
  na_source :: "string option"
  na_category :: "string option"
  na_image :: "string option"

text \<open>\<^verbatim>\<open>x || null\<close> on an optional string: the empty string is falsy.\<close>

definition orNull :: "string option \<Rightarrow> string option" where
  "orNull x = (case x of None \<Rightarrow> None | Some t \<Rightarrow> if t = [] then None else Some t)"

definition uniqueViolation :: jserror where
  "uniqueViolation = newError ''duplicate key value violates unique constraint''"

definition dimensionViolation :: jserror where
  "dimensionViolation = newError ''expected 768 dimensions''"

text \<open>
  \<^verbatim>\<open>create\<close>: one \<^verbatim>\<open>INSERT\<close>. The table declares \<^verbatim>\<open>url TEXT UNIQUE NOT NULL\<close> and
  \<^verbatim>\<open>embedding vector(768)\<close>, so the insert fails on a URL that a row already has and on
  an embedding of another length; the \<^verbatim>\<open>catch\<close> rethrows what it caught.
\<close>

definition create :: "env \<Rightarrow> new_article \<Rightarrow> db_state \<Rightarrow> (jserror + row) \<times> db_state" where
  "create E a d =
     (let d1 = d\<lparr>queries := queries d + 1\<rparr>
      in case pgFault E (queries d) of
           Some error \<Rightarrow> (Inl error, d1)
         | None \<Rightarrow>
             if na_url a \<in> set (map row_url (news_articles d)) then (Inl uniqueViolation, d1)
             else if length (na_embedding a) \<noteq> 768 then (Inl dimensionViolation, d1)
             else
               let r = \<lparr>row_title = na_title a, content_summary = na_summary a,
                        row_url = na_url a, published_at = na_publishedAt a,
                        embedding = na_embedding a, source = orNull (na_source a),
                        category = orNull (na_category a), row_image = orNull (na_image a)\<rparr>
               in (Inr r, d1\<lparr>news_articles := news_articles d @ [r]\<rparr>))"

text \<open>\<^verbatim>\<open>existsByUrl\<close>: one \<^verbatim>\<open>SELECT EXISTS\<close>.\<close>

definition existsByUrl :: "env \<Rightarrow> string \<Rightarrow> db_state \<Rightarrow> (jserror + bool) \<times> db_state" where
  "existsByUrl E u d =
     (let d1 = d\<lparr>queries := queries d + 1\<rparr>
      in case pgFault E (queries d) of
           Some error \<Rightarrow> (Inl error, d1)
         | None \<Rightarrow> (Inr (u \<in> set (map row_url (news_articles d))), d1))"

section \<open>NewsService\<close>

text \<open>
  The state of the whole service: the AI service, the database, and the requests sent to the
  news API so far (endpoint, category or query, \<^verbatim>\<open>max\<close>).
\<close>

record world =
  ai :: ai_state
  db :: db_state
  requests :: "(endpoint \<times> string \<times> int) list"

text \<open>
  \<^verbatim>\<open>fetchNews\<close> and \<^verbatim>\<open>searchNews\<close>: one request; whatever goes wrong is replaced by a
  fixed error.
\<close>

definition fetchNews :: "env \<Rightarrow> string \<Rightarrow> int \<Rightarrow> world \<Rightarrow> (jserror + article list) \<times> world" where
  "fetchNews E cat mx w =
     (case gnews E TopHeadlines cat mx of
        Inl error \<Rightarrow> Inl (newError ''News fetch failed'')
      | Inr articles \<Rightarrow> Inr articles,
      w\<lparr>requests := requests w @ [(TopHeadlines, cat, mx)]\<rparr>)"

definition searchNews :: "env \<Rightarrow> string \<Rightarrow> int \<Rightarrow> world \<Rightarrow> (jserror + article list) \<times> world" where
  "searchNews E query mx w =
     (case gnews E Search query mx of
        Inl error \<Rightarrow> Inl (newError ''News search failed'')
      | Inr articles \<Rightarrow> Inr articles,
      w\<lparr>requests := requests w @ [(Search, query, mx)]\<rparr>)"

section \<open>IngestionService\<close>

record counters =
  success :: nat
  failed :: nat
  skipped :: nat
  errors :: "string list"

record IngestionResult = counters +
  total :: nat

datatype outcome = Skip | Saved | Thrown jserror

text \<open>
  The body of the inner \<^verbatim>\<open>try\<close>, which the four loops share up to their log lines:
  \<open>Skip\<close> is the \<^verbatim>\<open>continue\<close> of an existing URL, \<open>Saved\<close> the end of the block, \<open>Thrown\<close>
  whatever reaches the \<^verbatim>\<open>catch\<close>. \<open>cat\<close> is the category that \<^verbatim>\<open>ingestNews\<close> passes on
  (\<^verbatim>\<open>searchAndIngest\<close> passes none), \<open>img\<close> what the caller does to the image:
  \<^verbatim>\<open>article.image || null\<close> in the first version of the file, \<^verbatim>\<open>article.image ?? undefined\<close>
  in the second.
\<close>

definition contentForAI :: "article \<Rightarrow> string" where
  "contentForAI a =
     title a @ [CHR 0x0A, CHR 0x0A] @ description a @ [CHR 0x0A, CHR 0x0A] @ content a"

definition processArticle ::
  "env \<Rightarrow> (string option \<Rightarrow> string option) \<Rightarrow> string option \<Rightarrow> article \<Rightarrow> world \<Rightarrow>
   outcome \<times> world" where
  "processArticle E img cat a w =
     (case existsByUrl E (url a) (db w) of
        (Inl error, d1) \<Rightarrow> (Thrown error, w\<lparr>db := d1\<rparr>)
      | (Inr exists, d1) \<Rightarrow>
          if exists then (Skip, w\<lparr>db := d1\<rparr>)
          else
            (case generateSummaryAndEmbedding E (contentForAI a) (ai w) of
               (Inl error, s1) \<Rightarrow> (Thrown error, w\<lparr>ai := s1, db := d1\<rparr>)
             | (Inr (summary, emb), s1) \<Rightarrow>
                 (case create E \<lparr>na_title = title a, na_summary = summary, na_url = url a,
                                 na_publishedAt = publishedAt a, na_embedding = emb,
                                 na_source = Some (sourceName a), na_category = cat,
                                 na_image = img (image a)\<rparr> d1 of
                    (Inl error, d2) \<Rightarrow> (Thrown error, w\<lparr>ai := s1, db := d2\<rparr>)
                  | (Inr r, d2) \<Rightarrow> (Saved, w\<lparr>ai := s1, db := d2\<rparr>))))"

text \<open>The loop of the first version of the file: every failure is counted and recorded.\<close>

fun ingestLoop ::
  "env \<Rightarrow> string option \<Rightarrow> article list \<Rightarrow> counters \<Rightarrow> world \<Rightarrow> counters \<times> world" where
  "ingestLoop E cat [] c w = (c, w)"
| "ingestLoop E cat (a # rest) c w =
     (case processArticle E orNull cat a w of
        (Skip, w1) \<Rightarrow> ingestLoop E cat rest (c\<lparr>skipped := skipped c + 1\<rparr>) w1
      | (Saved, w1) \<Rightarrow> ingestLoop E cat rest (c\<lparr>success := success c + 1\<rparr>) w1
      | (Thrown error, w1) \<Rightarrow>
          ingestLoop E cat rest
            (c\<lparr>failed := failed c + 1, errors := errors c @ [message error]\<rparr>) w1)"

text \<open>
  The loop of the second version of the file: a message that mentions
  \<^verbatim>\<open>quota exceeded\<close> ends the loop (\<^verbatim>\<open>break\<close>).
\<close>

fun ingestLoop2 ::
  "env \<Rightarrow> string option \<Rightarrow> article list \<Rightarrow> counters \<Rightarrow> world \<Rightarrow> counters \<times> world" where
  "ingestLoop2 E cat [] c w = (c, w)"
| "ingestLoop2 E cat (a # rest) c w =
     (case processArticle E (\<lambda>x. x) cat a w of
        (Skip, w1) \<Rightarrow> ingestLoop2 E cat rest (c\<lparr>skipped := skipped c + 1\<rparr>) w1
      | (Saved, w1) \<Rightarrow> ingestLoop2 E cat rest (c\<lparr>success := success c + 1\<rparr>) w1
      | (Thrown error, w1) \<Rightarrow>
          (let c1 = c\<lparr>failed := failed c + 1\<rparr>;
               errorMsg = message error
           in if str_includes errorMsg ''quota exceeded'' then
                (c1\<lparr>errors := errors c1 @
                      [''Quota exceeded after '' @ string_of_nat (success c1) @ '' articles'']\<rparr>,
                 w1)
              else
                ingestLoop2 E cat rest
                  (c1\<lparr>errors := errors c1 @ [url a @ '': '' @ errorMsg]\<rparr>) w1))"

definition noCounters :: counters where
  "noCounters = \<lparr>success = 0, failed = 0, skipped = 0, errors = []\<rparr>"

definition batchResult :: "counters \<Rightarrow> nat \<Rightarrow> IngestionResult" where
  "batchResult c n =
     \<lparr>success = success c, failed = failed c, skipped = skipped c, errors = errors c,
      total = n\<rparr>"

text \<open>The first version of the file: \<^verbatim>\<open>max\<close> is cut down to 3.\<close>

definition ingestNews :: "env \<Rightarrow> string \<Rightarrow> int \<Rightarrow> world \<Rightarrow> (jserror + IngestionResult) \<times> world" where
  "ingestNews E cat mx0 w =
     (let mx = (if mx0 > 3 then 3 else mx0)
      in case fetchNews E cat mx w of
           (Inl error, w1) \<Rightarrow> (Inl error, w1)
         | (Inr articles, w1) \<Rightarrow>
             (case ingestLoop E (Some cat) articles noCounters w1 of
                (c, w2) \<Rightarrow> (Inr (batchResult c (length articles)), w2)))"

definition searchAndIngest ::
  "env \<Rightarrow> string \<Rightarrow> int \<Rightarrow> world \<Rightarrow> (jserror + IngestionResult) \<times> world" where
  "searchAndIngest E query mx0 w =
     (let mx = (if mx0 > 3 then 3 else mx0)
      in case searchNews E query mx w of
           (Inl error, w1) \<Rightarrow> (Inl error, w1)
         | (Inr articles, w1) \<Rightarrow>
             (case ingestLoop E None articles noCounters w1 of
                (c, w2) \<Rightarrow> (Inr (batchResult c (length articles)), w2)))"

text \<open>
  The second version of the file: \<^verbatim>\<open>max\<close> above 5 is logged and passed on as it is. The
  read of the rate limit status before the loop changes nothing.
\<close>

definition ingestNews2 :: "env \<Rightarrow> string \<Rightarrow> int \<Rightarrow> world \<Rightarrow> (jserror + IngestionResult) \<times> world" where
  "ingestNews2 E cat mx w =
     (case fetchNews E cat mx w of
        (Inl error, w1) \<Rightarrow> (Inl error, w1)
      | (Inr articles, w1) \<Rightarrow>
          (case ingestLoop2 E (Some cat) articles noCounters w1 of
             (c, w2) \<Rightarrow> (Inr (batchResult c (length articles)), w2)))"

definition searchAndIngest2 ::
  "env \<Rightarrow> string \<Rightarrow> int \<Rightarrow> world \<Rightarrow> (jserror + IngestionResult) \<times> world" where
  "searchAndIngest2 E query mx w =
     (case searchNews E query mx w of
        (Inl error, w1) \<Rightarrow> (Inl error, w1)
      | (Inr articles, w1) \<Rightarrow>
          (case ingestLoop2 E None articles noCounters w1 of
             (c, w2) \<Rightarrow> (Inr (batchResult c (length articles)), w2)))"

section \<open>The retry schedule in the words of the specification\<close>

text \<open>
  The specification describes a run of the retry executor attempt by attempt: a rate limited
  failure waits \<open>max(server-suggested-retry-delay, initialDelay * 2 ^ attempt)\<close>, any other
  failure that is retried waits \<open>initialDelay * 2 ^ attempt\<close>. \<open>specDelay\<close> is that delay,
  and \<open>specStateBefore fn initialDelay k s\<close> is the state in which attempt \<open>k\<close> begins
  when the run starts in \<open>s\<close> and every earlier attempt has failed and been retried. They
  are what \<open>retryWithBackoff\<close> is compared with.
\<close>

definition specDelay :: "jserror \<Rightarrow> real \<Rightarrow> nat \<Rightarrow> real" where
  "specDelay e initialDelay attempt =
     (if status e = Some 429 then
        (case serverRetryDelay e of
           None \<Rightarrow> initialDelay * 2 ^ attempt
         | Some ms \<Rightarrow> max ms (initialDelay * 2 ^ attempt))
      else initialDelay * 2 ^ attempt)"

fun specStateBefore ::
  "(ai_state \<Rightarrow> (jserror + 'a) \<times> ai_state) \<Rightarrow> real \<Rightarrow> nat \<Rightarrow> ai_state \<Rightarrow> ai_state" where
  "specStateBefore fn initialDelay 0 s = s"
| "specStateBefore fn initialDelay (Suc k) s =
     (case attemptCall fn (specStateBefore fn initialDelay k s) of
        (Inl e, s1) \<Rightarrow> sleep (specDelay e initialDelay k) s1
      | (Inr v, s1) \<Rightarrow> s1)"

section \<open>Example states and collaborators\<close>

text \<open>The service as constructed at time 0, and with the day's budget spent.\<close>

definition freshAI :: ai_state where
  "freshAI = \<lparr>requestCount = 0, requestResetTime = 60000, lastRequestTime = 0,
              dailyRequestCount = 0, dailyResetTime = 86400000, clock = 0, sleeps = [],
              summaryCalls = 0, embeddingCalls = 0\<rparr>"

definition spentAI :: ai_state where
  "spentAI = freshAI\<lparr>dailyRequestCount := 1000\<rparr>"

definition freshWorld :: world where
  "freshWorld = \<lparr>ai = freshAI, db = \<lparr>news_articles = [], queries = 0\<rparr>, requests = []\<rparr>"

text \<open>Upstream failures: a model that does not exist, and a rate limit with a suggested delay.\<close>

definition notFoundError :: jserror where
  "notFoundError = \<lparr>status = Some 404, message = ''models/gemini is not found'',
                    errorDetails = None\<rparr>"

definition tooManyRequests :: jserror where
  "tooManyRequests =
     \<lparr>status = Some 429, message = ''Resource has been exhausted'',
      errorDetails = Some [\<lparr>atType = Some ''type.googleapis.com/google.rpc.RetryInfo'',
                            retryDelay = Some 17\<rparr>]\<rparr>"

text \<open>
  Collaborators that always succeed (no candidates are on offer), and the same with a
  summary model that is not found, or that is rate limited.
\<close>

definition workingEnv :: env where
  "workingEnv = \<lparr>summaryModel = (\<lambda>k p. Inr '' A summary. ''),
                 embeddingModel = (\<lambda>k p. Inr (Some (replicate 768 0))),
                 pgFault = (\<lambda>k. None),
                 gnews = (\<lambda>e q m. Inr [])\<rparr>"

definition notFoundEnv :: env where
  "notFoundEnv = workingEnv\<lparr>summaryModel := (\<lambda>k p. Inl notFoundError)\<rparr>"

definition rateLimitedEnv :: env where
  "rateLimitedEnv = workingEnv\<lparr>summaryModel := (\<lambda>k p. Inl tooManyRequests)\<rparr>"

text \<open>The fresh service after one granted wait (six seconds) and one call of the summary model.\<close>

definition afterFirstCall :: ai_state where
  "afterFirstCall = freshAI\<lparr>requestCount := 1, lastRequestTime := 6000, dailyRequestCount := 1,
                             clock := 6000, sleeps := [6000], summaryCalls := 1\<rparr>"

text \<open>
  What \<^verbatim>\<open>generateEmbedding\<close> raises for a reply that is not 768 numbers: the error of the
  length check, as its own \<^verbatim>\<open>catch\<close> rewrites it.
\<close>

definition invalidDimensions :: "real list option \<Rightarrow> jserror" where
  "invalidDimensions emb =
     newError (''Embedding generation failed: Invalid embedding dimensions: '' @
       (case emb of None \<Rightarrow> ''undefined'' | Some vs \<Rightarrow> string_of_nat (length vs)))"

text \<open>An embedding model that replies with 700 numbers, and a candidate.\<close>

definition shortEnv :: env where
  "shortEnv = workingEnv\<lparr>embeddingModel := (\<lambda>k p. Inr (Some (replicate 700 0)))\<rparr>"

definition firstArticle :: article where
  "firstArticle = \<lparr>title = ''Title one'', description = ''About one'', content = ''Body one'',
                   url = ''https://example.org/1'', image = None,
                   publishedAt = ''2025-01-01T00:00:00Z'', sourceName = ''Example''\<rparr>"

text \<open>The fresh service after one summary and one embedding.\<close>

definition afterEmbedding :: ai_state where
  "afterEmbedding = freshAI\<lparr>requestCount := 2, lastRequestTime := 12000, dailyRequestCount := 2,
                             clock := 12000, sleeps := [6000, 2000, 4000], summaryCalls := 1,
                             embeddingCalls := 1\<rparr>"

text \<open>
  A second candidate, a news API that offers the first candidate twice and then the second,
  and the state of the service with the day budget spent.
\<close>

definition secondArticle :: article where
  "secondArticle = \<lparr>title = ''Title two'', description = ''About two'', content = ''Body two'',
                    url = ''https://example.org/2'', image = Some ''https://example.org/2.png'',
                    publishedAt = ''2025-01-02T00:00:00Z'', sourceName = ''Example''\<rparr>"

definition newsEnv :: env where
  "newsEnv = workingEnv\<lparr>gnews :=
     (\<lambda>e q m. Inr (take (nat m) [firstArticle, firstArticle, secondArticle]))\<rparr>"

definition spentWorld :: world where
  "spentWorld = freshWorld\<lparr>ai := spentAI\<rparr>"







text \<open>The news API of \<open>newsEnv\<close> with a summary model that is always rate limited.\<close>

definition rateLimitedNewsEnv :: env where
  "rateLimitedNewsEnv = newsEnv\<lparr>summaryModel := (\<lambda>k p. Inl tooManyRequests)\<rparr>"

text \<open>
  A failure that is neither 404 nor 429, a summary model whose first call fails with it, and a
  summary model that always fails with it.
\<close>

definition serverError :: jserror where
  "serverError = \<lparr>status = Some 500, message = ''Internal error'', errorDetails = None\<rparr>"

definition flakyEnv :: env where
  "flakyEnv = workingEnv\<lparr>summaryModel :=
     (\<lambda>k p. if k = 0 then Inl serverError else Inr '' A summary. '')\<rparr>"

definition brokenEnv :: env where
  "brokenEnv = workingEnv\<lparr>summaryModel := (\<lambda>k p. Inl serverError)\<rparr>"


section \<open>The rate budget\<close>

lemma waitForRateLimit_spent:
  assumes "1000 \<le> dailyRequestCount s" and "clock s \<le> dailyResetTime s"
  shows "fst (waitForRateLimit s) = Inl quotaExhausted"
    and "sleeps (snd (waitForRateLimit s)) = sleeps s"
    and "clock (snd (waitForRateLimit s)) = clock s"
  using assms by (simp_all add: waitForRateLimit_def Let_def)

lemma waitForRateLimit_granted:
  assumes "\<not> (1000 \<le> dailyRequestCount s \<and> clock s \<le> dailyResetTime s)"
  shows "fst (waitForRateLimit s) = Inr ()"
  using assms by (auto simp: waitForRateLimit_def Let_def)

text \<open>
  C3. When the day counter has reached 1000 and the clock has not passed the end of the day
  window, \<open>waitForRateLimit\<close> fails with the quota error and has slept for nothing (the
  list of sleeps and the clock are as before); in every other state it succeeds.
\<close>

theorem waitForRateLimit_quota:
  "(1000 \<le> dailyRequestCount s \<and> clock s \<le> dailyResetTime s \<longrightarrow>
      fst (waitForRateLimit s) = Inl quotaExhausted \<and>
      sleeps (snd (waitForRateLimit s)) = sleeps s \<and>
      clock (snd (waitForRateLimit s)) = clock s) \<and>
   (\<not> (1000 \<le> dailyRequestCount s \<and> clock s \<le> dailyResetTime s) \<longrightarrow>
      fst (waitForRateLimit s) = Inr ())"
  using waitForRateLimit_spent [of s] waitForRateLimit_granted [of s] by blast

theorem waitForRateLimit_quota_witness:
  "1000 \<le> dailyRequestCount spentAI \<and> clock spentAI \<le> dailyResetTime spentAI \<and>
   fst (waitForRateLimit spentAI) = Inl quotaExhausted \<and>
   sleeps (snd (waitForRateLimit spentAI)) = [] \<and>
   \<not> (1000 \<le> dailyRequestCount freshAI \<and> clock freshAI \<le> dailyResetTime freshAI) \<and>
   fst (waitForRateLimit freshAI) = Inr ()"
  using waitForRateLimit_quota [of spentAI] waitForRateLimit_quota [of freshAI]
  by (simp add: spentAI_def freshAI_def)

text \<open>
  C10. \<open>resetCounters\<close> sets the minute counter to 0 and the end of the minute window to
  now + 60s, and leaves the day counter, the end of the day window, the time of the last
  call and the clock as they are; whether the next \<open>waitForRateLimit\<close> fails with the
  quota error is the same before and after it.
\<close>

theorem resetCounters_frame:
  "requestCount (resetCounters s) = 0 \<and>
   requestResetTime (resetCounters s) = clock s + 60000 \<and>
   dailyRequestCount (resetCounters s) = dailyRequestCount s \<and>
   dailyResetTime (resetCounters s) = dailyResetTime s \<and>
   lastRequestTime (resetCounters s) = lastRequestTime s \<and>
   clock (resetCounters s) = clock s \<and>
   (fst (waitForRateLimit (resetCounters s)) = Inl quotaExhausted) =
     (fst (waitForRateLimit s) = Inl quotaExhausted)"
  by (simp add: resetCounters_def waitForRateLimit_def Let_def)

section \<open>Retry with backoff\<close>

lemma retryLoop_failed_attempt:
  assumes "attempt < maxRetries" and "attemptCall fn s = (Inl e, s1)"
  shows "retryLoop fn operation maxRetries initialDelay attempt lastError s =
     (if status e = Some 404 then
        (Inl (newError (''AI model not available: '' @ message e)), s1)
      else if status e = Some 429 then
        (if attempt < maxRetries - 1 then
           retryLoop fn operation maxRetries initialDelay (attempt + 1) (Some e)
             (sleep (rateLimitDelay e initialDelay attempt) s1)
         else
           (Inl (newError (''Rate limit exceeded after '' @ string_of_nat maxRetries @
                   '' attempts. Please reduce batch size or wait.'')), s1))
      else if attempt < maxRetries - 1 then
        retryLoop fn operation maxRetries initialDelay (attempt + 1) (Some e)
          (sleep (initialDelay * 2 ^ attempt) s1)
      else (Inl e, s1))"
  using assms by (subst retryLoop.simps) simp

lemma retryLoop_succeeded_attempt:
  assumes "attempt < maxRetries" and "attemptCall fn s = (Inr v, s1)"
  shows "retryLoop fn operation maxRetries initialDelay attempt lastError s = (Inr v, s1)"
  using assms by (subst retryLoop.simps) simp

text \<open>The calls to the upstream models are counted by the operations alone.\<close>

lemma calls_sleep [simp]:
  "summaryCalls (sleep ms s) = summaryCalls s"
  "embeddingCalls (sleep ms s) = embeddingCalls s"
  by (simp_all add: sleep_def)

lemma calls_waitForRateLimit [simp]:
  "summaryCalls (snd (waitForRateLimit s)) = summaryCalls s"
  "embeddingCalls (snd (waitForRateLimit s)) = embeddingCalls s"
  by (simp_all add: waitForRateLimit_def Let_def)

lemma summaryCalls_attemptCall:
  "summaryCalls (snd (attemptCall (summaryCall E p) s)) \<le> summaryCalls s + 1"
proof (cases "waitForRateLimit s")
  case (Pair r s1)
  then have "summaryCalls s1 = summaryCalls s"
    using calls_waitForRateLimit(1) [of s] by simp
  with Pair show ?thesis
    by (cases r) (auto simp: attemptCall_def summaryCall_def split: sum.splits)
qed

lemma embeddingCalls_attemptCall:
  "embeddingCalls (snd (attemptCall (embeddingCall E p) s)) \<le> embeddingCalls s + 1"
proof (cases "waitForRateLimit s")
  case (Pair r s1)
  then have "embeddingCalls s1 = embeddingCalls s"
    using calls_waitForRateLimit(2) [of s] by simp
  with Pair show ?thesis
    by (cases r) (auto simp: attemptCall_def embeddingCall_def)
qed

lemma summaryCalls_retryLoop:
  "summaryCalls (snd (retryLoop (summaryCall E p) operation maxRetries initialDelay attempt
                        lastError s))
     \<le> summaryCalls s + (maxRetries - attempt)"
proof (induction "summaryCall E p" operation maxRetries initialDelay attempt lastError s
        rule: retryLoop.induct)
  case (1 operation maxRetries initialDelay attempt lastError s)
  show ?case
  proof (cases "attempt < maxRetries")
    case False
    then show ?thesis by (subst retryLoop.simps) simp
  next
    case True
    obtain r s1 where a: "attemptCall (summaryCall E p) s = (r, s1)"
      by (cases "attemptCall (summaryCall E p) s")
    have b: "summaryCalls s1 \<le> summaryCalls s + 1"
      using summaryCalls_attemptCall [of E p s] a by simp
    show ?thesis
    proof (cases r)
      case (Inr v)
      with True a b show ?thesis
        by (simp add: retryLoop_succeeded_attempt)
    next
      case (Inl e)
      note ih1 = "1.hyps"(1) [OF True a [symmetric, unfolded Inl] refl]
      note ih2 = "1.hyps"(2) [OF True a [symmetric, unfolded Inl] refl]
      from True a b Inl show ?thesis
        apply (simp add: retryLoop_failed_attempt)
        apply (intro conjI impI)
        using ih1 ih2 apply auto
        done
    qed
  qed
qed

lemma embeddingCalls_retryLoop:
  "embeddingCalls (snd (retryLoop (embeddingCall E p) operation maxRetries initialDelay attempt
                          lastError s))
     \<le> embeddingCalls s + (maxRetries - attempt)"
proof (induction "embeddingCall E p" operation maxRetries initialDelay attempt lastError s
        rule: retryLoop.induct)
  case (1 operation maxRetries initialDelay attempt lastError s)
  show ?case
  proof (cases "attempt < maxRetries")
    case False
    then show ?thesis by (subst retryLoop.simps) simp
  next
    case True
    obtain r s1 where a: "attemptCall (embeddingCall E p) s = (r, s1)"
      by (cases "attemptCall (embeddingCall E p) s")
    have b: "embeddingCalls s1 \<le> embeddingCalls s + 1"
      using embeddingCalls_attemptCall [of E p s] a by simp
    show ?thesis
    proof (cases r)
      case (Inr v)
      with True a b show ?thesis
        by (simp add: retryLoop_succeeded_attempt)
    next
      case (Inl e)
      note ih1 = "1.hyps"(1) [OF True a [symmetric, unfolded Inl] refl]
      note ih2 = "1.hyps"(2) [OF True a [symmetric, unfolded Inl] refl]
      from True a b Inl show ?thesis
        apply (simp add: retryLoop_failed_attempt)
        apply (intro conjI impI)
        using ih1 ih2 apply auto
        done
    qed
  qed
qed

text \<open>
  C4, at a service whose day budget is spent: the quota error of \<open>waitForRateLimit\<close> is
  caught like a failure of the operation, so \<open>retryWithBackoff\<close> sleeps 3000 and 6000
  milliseconds and waits for the rate limit three times before it raises the error. The
  operation \<open>fn\<close> is never called.
\<close>

theorem retryWithBackoff_spent_budget:
  "retryWithBackoff fn operation 3 3000 spentAI =
     (Inl quotaExhausted, spentAI\<lparr>clock := 9000, sleeps := [3000, 6000]\<rparr>)"
  by (simp add: retryWithBackoff_def retryLoop.simps attemptCall_def waitForRateLimit_def Let_def
        sleep_def spentAI_def freshAI_def quotaExhausted_def newError_def)

text \<open>The last error matters only after the loop, which an attempt inside it never reaches.\<close>

lemma retryLoop_lastError:
  "attempt < maxRetries \<Longrightarrow>
   retryLoop fn operation maxRetries initialDelay attempt lastError s =
   retryLoop fn operation maxRetries initialDelay attempt lastError' s"
  by (subst retryLoop.simps, subst (2) retryLoop.simps) simp

lemma retryLoop_advance:
  assumes "n < maxRetries"
    and "\<forall>k<n. \<exists>e s1. attemptCall fn (specStateBefore fn initialDelay k s) = (Inl e, s1) \<and>
                    status e \<noteq> Some 404"
    and "j \<le> n"
  shows "retryLoop fn operation maxRetries initialDelay 0 None s =
         retryLoop fn operation maxRetries initialDelay j None (specStateBefore fn initialDelay j s)"
  using assms(3)
proof (induction j)
  case 0
  show ?case by simp
next
  case (Suc j)
  then have jn: "j < n" and ih: "retryLoop fn operation maxRetries initialDelay 0 None s =
         retryLoop fn operation maxRetries initialDelay j None (specStateBefore fn initialDelay j s)"
    by simp_all
  from assms(2) jn obtain e s1 where
    a: "attemptCall fn (specStateBefore fn initialDelay j s) = (Inl e, s1)" and
    nf: "status e \<noteq> Some 404"
    by blast
  from jn assms(1) have lt: "j < maxRetries" "j < maxRetries - 1" "Suc j < maxRetries"
    by simp_all
  have "retryLoop fn operation maxRetries initialDelay j None (specStateBefore fn initialDelay j s) =
        retryLoop fn operation maxRetries initialDelay (Suc j) (Some e)
          (sleep (specDelay e initialDelay j) s1)"
    using nf lt(2)
    by (simp add: retryLoop_failed_attempt [OF lt(1) a] specDelay_def rateLimitDelay_def Let_def)
  also have "\<dots> = retryLoop fn operation maxRetries initialDelay (Suc j) None
          (sleep (specDelay e initialDelay j) s1)"
    by (rule retryLoop_lastError [OF lt(3)])
  also have "sleep (specDelay e initialDelay j) s1 = specStateBefore fn initialDelay (Suc j) s"
    by (simp add: a)
  finally show ?case using ih by simp
qed

lemma retryWithBackoff_at:
  assumes "n < maxRetries"
    and "\<forall>k<n. \<exists>e s1. attemptCall fn (specStateBefore fn initialDelay k s) = (Inl e, s1) \<and>
                    status e \<noteq> Some 404"
  shows "retryWithBackoff fn operation maxRetries initialDelay s =
         retryLoop fn operation maxRetries initialDelay n None (specStateBefore fn initialDelay n s)"
  using retryLoop_advance [OF assms, of n operation] by (simp add: retryWithBackoff_def)


text \<open>
  C5. A run of \<open>retryWithBackoff\<close> from state \<open>s\<close> whose attempts \<open>0, \<dots>, n - 1\<close> have
  failed with a status other than 404, each followed by the delay of the specification
  (\<open>max(server-suggested-retry-delay, initialDelay * 2 ^ attempt)\<close> after a 429,
  \<open>initialDelay * 2 ^ attempt\<close> otherwise), and whose attempt \<open>n < maxRetries\<close> ends in state
  \<open>s'\<close>: a success is the result of the run; a 404 ends the run there with the permanent
  error, whatever attempts remain; on the last attempt a 429 ends the run with the rate limit
  error and any other failure is raised as it is; before the last attempt a failure that
  is not a 404 is followed by the delay and the next attempt. The message of the rate limit
  error is not that of the spent day budget, and a run calls the upstream model at most
  \<open>maxRetries\<close> times.
\<close>

theorem retryWithBackoff_classification:
  "(n < maxRetries \<and>
    (\<forall>k<n. \<exists>e s1. attemptCall fn (specStateBefore fn initialDelay k s) = (Inl e, s1) \<and>
                status e \<noteq> Some 404) \<and>
    attemptCall fn (specStateBefore fn initialDelay n s) = (r, s') \<longrightarrow>
      (r = Inr v \<longrightarrow>
         retryWithBackoff fn operation maxRetries initialDelay s = (Inr v, s')) \<and>
      (r = Inl e \<and> status e = Some 404 \<longrightarrow>
         retryWithBackoff fn operation maxRetries initialDelay s =
           (Inl (newError (''AI model not available: '' @ message e)), s')) \<and>
      (r = Inl e \<and> status e = Some 429 \<and> n + 1 = maxRetries \<longrightarrow>
         retryWithBackoff fn operation maxRetries initialDelay s =
           (Inl (newError (''Rate limit exceeded after '' @ string_of_nat maxRetries @
                   '' attempts. Please reduce batch size or wait.'')), s')) \<and>
      (r = Inl e \<and> status e \<noteq> Some 404 \<and> status e \<noteq> Some 429 \<and> n + 1 = maxRetries \<longrightarrow>
         retryWithBackoff fn operation maxRetries initialDelay s = (Inl e, s')) \<and>
      (r = Inl e \<and> status e \<noteq> Some 404 \<and> n + 1 < maxRetries \<longrightarrow>
         retryWithBackoff fn operation maxRetries initialDelay s =
           retryLoop fn operation maxRetries initialDelay (n + 1) (Some e)
             (sleep (specDelay e initialDelay n) s'))) \<and>
   ''Rate limit exceeded after '' @ string_of_nat maxRetries @
      '' attempts. Please reduce batch size or wait.'' \<noteq> message quotaExhausted \<and>
   summaryCalls (snd (retryWithBackoff (summaryCall E p) operation maxRetries initialDelay s))
     \<le> summaryCalls s + maxRetries \<and>
   embeddingCalls (snd (retryWithBackoff (embeddingCall E p) operation maxRetries initialDelay s))
     \<le> embeddingCalls s + maxRetries"
proof -
  have msg: "''Rate limit exceeded after '' @ string_of_nat maxRetries @
            '' attempts. Please reduce batch size or wait.'' \<noteq> message quotaExhausted"
    by (simp add: quotaExhausted_def newError_def)
  have calls:
    "summaryCalls (snd (retryWithBackoff (summaryCall E p) operation maxRetries initialDelay s))
       \<le> summaryCalls s + maxRetries"
    "embeddingCalls (snd (retryWithBackoff (embeddingCall E p) operation maxRetries initialDelay s))
       \<le> embeddingCalls s + maxRetries"
    using summaryCalls_retryLoop [of E p operation maxRetries initialDelay 0 None s]
      embeddingCalls_retryLoop [of E p operation maxRetries initialDelay 0 None s]
    by (simp_all add: retryWithBackoff_def)
  have run: "(r = Inr v \<longrightarrow>
         retryWithBackoff fn operation maxRetries initialDelay s = (Inr v, s')) \<and>
      (r = Inl e \<and> status e = Some 404 \<longrightarrow>
         retryWithBackoff fn operation maxRetries initialDelay s =
           (Inl (newError (''AI model not available: '' @ message e)), s')) \<and>
      (r = Inl e \<and> status e = Some 429 \<and> n + 1 = maxRetries \<longrightarrow>
         retryWithBackoff fn operation maxRetries initialDelay s =
           (Inl (newError (''Rate limit exceeded after '' @ string_of_nat maxRetries @
                   '' attempts. Please reduce batch size or wait.'')), s')) \<and>
      (r = Inl e \<and> status e \<noteq> Some 404 \<and> status e \<noteq> Some 429 \<and> n + 1 = maxRetries \<longrightarrow>
         retryWithBackoff fn operation maxRetries initialDelay s = (Inl e, s')) \<and>
      (r = Inl e \<and> status e \<noteq> Some 404 \<and> n + 1 < maxRetries \<longrightarrow>
         retryWithBackoff fn operation maxRetries initialDelay s =
           retryLoop fn operation maxRetries initialDelay (n + 1) (Some e)
             (sleep (specDelay e initialDelay n) s'))"
    if h: "n < maxRetries"
      "\<forall>k<n. \<exists>e s1. attemptCall fn (specStateBefore fn initialDelay k s) = (Inl e, s1) \<and>
                status e \<noteq> Some 404"
      "attemptCall fn (specStateBefore fn initialDelay n s) = (r, s')"
  proof (cases r)
    case (Inr v')
    with h show ?thesis
      by (simp add: retryWithBackoff_at [OF h(1,2)] retryLoop_succeeded_attempt)
  next
    case (Inl e')
    with h(3) have a: "attemptCall fn (specStateBefore fn initialDelay n s) = (Inl e', s')"
      by simp
    from h(1) Inl show ?thesis
      by (auto simp: retryWithBackoff_at [OF h(1,2)] retryLoop_failed_attempt [OF h(1) a]
            specDelay_def rateLimitDelay_def Let_def)
  qed
  from msg calls run show ?thesis by blast
qed

text \<open>
  Four runs of three attempts at most on the fresh service: a model that is not found (one
  call), a failure followed by a success (two calls, one backoff), a model that is always rate
  limited (three calls, the suggested 17 seconds twice), and a model that always fails
  otherwise (three calls, backoffs of 3 and 6 seconds).
\<close>

lemmas retry_defs =
  attemptCall_def summaryCall_def waitForRateLimit_def Let_def sleep_def specDelay_def
  serverRetryDelay_def isRetryInfo_def trim_def isSpace_def
  MAX_REQUESTS_PER_MINUTE_def MIN_REQUEST_INTERVAL_def

theorem retryWithBackoff_classification_witness:
  "retryWithBackoff (summaryCall notFoundEnv ''p'') ''Summary generation'' 3 3000 freshAI =
     (Inl (newError ''AI model not available: models/gemini is not found''), afterFirstCall) \<and>
   retryWithBackoff (summaryCall flakyEnv ''p'') ''Summary generation'' 3 3000 freshAI =
     (Inr ''A summary.'',
      freshAI\<lparr>requestCount := 2, lastRequestTime := 12000, dailyRequestCount := 2,
              clock := 12000, sleeps := [6000, 3000, 3000], summaryCalls := 2\<rparr>) \<and>
   retryWithBackoff (summaryCall rateLimitedEnv ''p'') ''Summary generation'' 3 3000 freshAI =
     (Inl (newError ''Rate limit exceeded after 3 attempts. Please reduce batch size or wait.''),
      freshAI\<lparr>requestCount := 3, lastRequestTime := 40000, dailyRequestCount := 3,
              clock := 40000, sleeps := [6000, 17000, 17000], summaryCalls := 3\<rparr>) \<and>
   retryWithBackoff (summaryCall brokenEnv ''p'') ''Summary generation'' 3 3000 freshAI =
     (Inl serverError,
      freshAI\<lparr>requestCount := 3, lastRequestTime := 18000, dailyRequestCount := 3,
              clock := 18000, sleeps := [6000, 3000, 3000, 6000], summaryCalls := 3\<rparr>)"
proof -
  have two: "\<And>P. (\<forall>k<2. P k) = (P 0 \<and> P (Suc 0))" "\<And>P. (\<forall>k<Suc 0. P k) = P 0"
    by (auto simp: less_Suc_eq numeral_2_eq_2)
  have three: "string_of_nat 3 = ''3''"
    by (simp add: string_of_nat.simps digit_def)
  have st: "status notFoundError = Some 404" "status tooManyRequests = Some 429"
    "status serverError = Some 500" "message notFoundError = ''models/gemini is not found''"
    by (simp_all add: notFoundError_def tooManyRequests_def serverError_def)
  \<comment> \<open>not found: the first attempt is the last\<close>
  have nf0: "attemptCall (summaryCall notFoundEnv ''p'')
               (specStateBefore (summaryCall notFoundEnv ''p'') 3000 0 freshAI) =
             (Inl notFoundError, afterFirstCall)"
    by (simp add: retry_defs notFoundEnv_def workingEnv_def freshAI_def afterFirstCall_def)
  have nf: "retryWithBackoff (summaryCall notFoundEnv ''p'') ''Summary generation'' 3 3000 freshAI =
     (Inl (newError ''AI model not available: models/gemini is not found''), afterFirstCall)"
    using retryWithBackoff_classification [where n = 0 and maxRetries = 3
        and fn = "summaryCall notFoundEnv ''p''" and initialDelay = 3000 and s = freshAI
        and r = "Inl notFoundError" and s' = afterFirstCall and e = notFoundError
        and operation = "''Summary generation''"] nf0
    by (simp add: st)
  \<comment> \<open>one failure, then success\<close>
  have fl0: "\<forall>k<Suc 0. \<exists>e s1. attemptCall (summaryCall flakyEnv ''p'')
               (specStateBefore (summaryCall flakyEnv ''p'') 3000 k freshAI) = (Inl e, s1) \<and>
               status e \<noteq> Some 404"
    by (simp add: two retry_defs flakyEnv_def workingEnv_def freshAI_def serverError_def)
  have fl1: "attemptCall (summaryCall flakyEnv ''p'')
               (specStateBefore (summaryCall flakyEnv ''p'') 3000 (Suc 0) freshAI) =
             (Inr ''A summary.'',
              freshAI\<lparr>requestCount := 2, lastRequestTime := 12000, dailyRequestCount := 2,
                      clock := 12000, sleeps := [6000, 3000, 3000], summaryCalls := 2\<rparr>)"
    by (simp add: retry_defs flakyEnv_def workingEnv_def freshAI_def serverError_def)
  have fl: "retryWithBackoff (summaryCall flakyEnv ''p'') ''Summary generation'' 3 3000 freshAI =
     (Inr ''A summary.'',
      freshAI\<lparr>requestCount := 2, lastRequestTime := 12000, dailyRequestCount := 2,
              clock := 12000, sleeps := [6000, 3000, 3000], summaryCalls := 2\<rparr>)"
    using retryWithBackoff_classification [where n = "Suc 0" and maxRetries = 3
        and fn = "summaryCall flakyEnv ''p''" and initialDelay = 3000 and s = freshAI
        and r = "Inr ''A summary.''" and v = "''A summary.''"
        and s' = "freshAI\<lparr>requestCount := 2, lastRequestTime := 12000, dailyRequestCount := 2,
              clock := 12000, sleeps := [6000, 3000, 3000], summaryCalls := 2\<rparr>"
        and operation = "''Summary generation''"] fl0 fl1
    by simp
  \<comment> \<open>rate limited three times\<close>
  have rl0: "\<forall>k<2. \<exists>e s1. attemptCall (summaryCall rateLimitedEnv ''p'')
               (specStateBefore (summaryCall rateLimitedEnv ''p'') 3000 k freshAI) = (Inl e, s1) \<and>
               status e \<noteq> Some 404"
    by (simp add: two retry_defs rateLimitedEnv_def workingEnv_def freshAI_def
          tooManyRequests_def)
  have rl2: "attemptCall (summaryCall rateLimitedEnv ''p'')
               (specStateBefore (summaryCall rateLimitedEnv ''p'') 3000 2 freshAI) =
             (Inl tooManyRequests,
              freshAI\<lparr>requestCount := 3, lastRequestTime := 40000, dailyRequestCount := 3,
                      clock := 40000, sleeps := [6000, 17000, 17000], summaryCalls := 3\<rparr>)"
    by (simp add: numeral_2_eq_2 retry_defs rateLimitedEnv_def workingEnv_def freshAI_def
          tooManyRequests_def)
  have rl: "retryWithBackoff (summaryCall rateLimitedEnv ''p'') ''Summary generation'' 3 3000 freshAI =
     (Inl (newError ''Rate limit exceeded after 3 attempts. Please reduce batch size or wait.''),
      freshAI\<lparr>requestCount := 3, lastRequestTime := 40000, dailyRequestCount := 3,
              clock := 40000, sleeps := [6000, 17000, 17000], summaryCalls := 3\<rparr>)"
    using retryWithBackoff_classification [where n = 2 and maxRetries = 3
        and fn = "summaryCall rateLimitedEnv ''p''" and initialDelay = 3000 and s = freshAI
        and r = "Inl tooManyRequests" and e = tooManyRequests
        and s' = "freshAI\<lparr>requestCount := 3, lastRequestTime := 40000, dailyRequestCount := 3,
              clock := 40000, sleeps := [6000, 17000, 17000], summaryCalls := 3\<rparr>"
        and operation = "''Summary generation''"] rl0 rl2
    by (simp add: st three)
  \<comment> \<open>another failure three times\<close>
  have br0: "\<forall>k<2. \<exists>e s1. attemptCall (summaryCall brokenEnv ''p'')
               (specStateBefore (summaryCall brokenEnv ''p'') 3000 k freshAI) = (Inl e, s1) \<and>
               status e \<noteq> Some 404"
    by (simp add: two retry_defs brokenEnv_def workingEnv_def freshAI_def serverError_def)
  have br2: "attemptCall (summaryCall brokenEnv ''p'')
               (specStateBefore (summaryCall brokenEnv ''p'') 3000 2 freshAI) =
             (Inl serverError,
              freshAI\<lparr>requestCount := 3, lastRequestTime := 18000, dailyRequestCount := 3,
                      clock := 18000, sleeps := [6000, 3000, 3000, 6000], summaryCalls := 3\<rparr>)"
    by (simp add: numeral_2_eq_2 retry_defs brokenEnv_def workingEnv_def freshAI_def
          serverError_def)
  have br: "retryWithBackoff (summaryCall brokenEnv ''p'') ''Summary generation'' 3 3000 freshAI =
     (Inl serverError,
      freshAI\<lparr>requestCount := 3, lastRequestTime := 18000, dailyRequestCount := 3,
              clock := 18000, sleeps := [6000, 3000, 3000, 6000], summaryCalls := 3\<rparr>)"
    using retryWithBackoff_classification [where n = 2 and maxRetries = 3
        and fn = "summaryCall brokenEnv ''p''" and initialDelay = 3000 and s = freshAI
        and r = "Inl serverError" and e = serverError
        and s' = "freshAI\<lparr>requestCount := 3, lastRequestTime := 18000, dailyRequestCount := 3,
              clock := 18000, sleeps := [6000, 3000, 3000, 6000], summaryCalls := 3\<rparr>"
        and operation = "''Summary generation''"] br0 br2
    by (simp add: st)
  from nf fl rl br show ?thesis by blast
qed

text \<open>A summary model that is always rate limited: three calls, two sleeps of the suggested
  17 seconds, then the rate limit error.\<close>

lemma retryWithBackoff_rate_limited_run:
  "retryWithBackoff (summaryCall rateLimitedEnv ''p'') ''Summary generation'' 3 3000 freshAI =
     (Inl (newError ''Rate limit exceeded after 3 attempts. Please reduce batch size or wait.''),
      freshAI\<lparr>requestCount := 3, lastRequestTime := 40000, dailyRequestCount := 3,
              clock := 40000, sleeps := [6000, 17000, 17000], summaryCalls := 3\<rparr>)"
  by (simp add: retryWithBackoff_def retryLoop.simps attemptCall_def waitForRateLimit_def Let_def
        sleep_def freshAI_def newError_def summaryCall_def rateLimitedEnv_def workingEnv_def
        tooManyRequests_def rateLimitDelay_def serverRetryDelay_def isRetryInfo_def
        MAX_REQUESTS_PER_MINUTE_def MIN_REQUEST_INTERVAL_def string_of_nat.simps digit_def)

section \<open>Truncation of the inputs\<close>

lemma summaryCall_cong:
  "(\<forall>k. summaryModel E k p = summaryModel E' k p) \<Longrightarrow> summaryCall E p = summaryCall E' p"
  by (rule ext) (simp add: summaryCall_def)

lemma embeddingCall_cong:
  "(\<forall>k. embeddingModel E k p = embeddingModel E' k p) \<Longrightarrow> embeddingCall E p = embeddingCall E' p"
  by (rule ext) (simp add: embeddingCall_def)

text \<open>
  C9, as the code has it. The article text that goes into the summary prompt is the input
  when that has at most 3000 characters and otherwise its first 3000 characters followed by
  three dots, 3003 characters in all; the text given to the embedding model is the first
  2000 characters of the input. Both are functions of the input, and \<open>generateSummary\<close>
  and \<open>generateEmbedding\<close> ask the upstream models about these texts only: two upstreams
  that agree on them give the same run.
\<close>

theorem truncated_inputs:
  "length (summaryInput text) \<le> 3003 \<and>
   (length text \<le> 3000 \<longrightarrow> summaryInput text = text) \<and>
   (3000 < length text \<longrightarrow> summaryInput text = take 3000 text @ ''...'') \<and>
   embeddingInput text = take 2000 text \<and>
   length (embeddingInput text) \<le> 2000 \<and>
   (length text \<le> 2000 \<longrightarrow> embeddingInput text = text) \<and>
   ((\<forall>k. summaryModel E k (summaryPrompt (summaryInput text)) =
         summaryModel E' k (summaryPrompt (summaryInput text))) \<longrightarrow>
      generateSummary E text s = generateSummary E' text s) \<and>
   ((\<forall>k. embeddingModel E k (embeddingInput text) = embeddingModel E' k (embeddingInput text)) \<longrightarrow>
      generateEmbedding E text s = generateEmbedding E' text s)"
  using summaryCall_cong [of E "summaryPrompt (summaryInput text)" E']
    embeddingCall_cong [of E "embeddingInput text" E']
  by (auto simp: summaryInput_def embeddingInput_def generateSummary_def generateEmbedding_def)

theorem truncated_inputs_witness:
  "3000 < length (replicate 3001 CHR ''a'') \<and>
   summaryInput (replicate 3001 CHR ''a'') = replicate 3000 CHR ''a'' @ ''...'' \<and>
   length ''abc'' \<le> 2000 \<and> summaryInput ''abc'' = ''abc'' \<and> embeddingInput ''abc'' = ''abc'' \<and>
   (\<forall>k. summaryModel workingEnv k (summaryPrompt (summaryInput ''abc'')) =
        summaryModel shortEnv k (summaryPrompt (summaryInput ''abc''))) \<and>
   generateSummary workingEnv ''abc'' freshAI = generateSummary shortEnv ''abc'' freshAI \<and>
   (\<forall>k. embeddingModel workingEnv k (embeddingInput ''abc'') =
        embeddingModel notFoundEnv k (embeddingInput ''abc'')) \<and>
   generateEmbedding workingEnv ''abc'' freshAI = generateEmbedding notFoundEnv ''abc'' freshAI"
  using truncated_inputs [of "replicate 3001 CHR ''a''" workingEnv shortEnv freshAI]
    truncated_inputs [of "''abc''" workingEnv shortEnv freshAI]
    truncated_inputs [of "''abc''" workingEnv notFoundEnv freshAI]
  by (simp add: shortEnv_def notFoundEnv_def)

text \<open>
  C9 as it is stated fails for the summary: an input of 3001 characters goes into the prompt
  as 3003 characters.
\<close>

theorem summary_input_counterexample:
  "\<not> length (summaryInput (replicate 3001 CHR ''a'')) \<le> 3000"
  by (simp add: summaryInput_def)

section \<open>Embedding validation\<close>

lemma str_includes_hd: "str_includes t pat \<Longrightarrow> pat \<noteq> [] \<Longrightarrow> hd pat \<in> set t"
  by (induction t) (cases pat; auto)+

lemma digit_in: "d < 10 \<Longrightarrow> digit d \<in> set ''0123456789''"
  unfolding digit_def by (rule nth_mem) simp

lemma set_string_of_nat: "set (string_of_nat n) \<subseteq> set ''0123456789''"
proof (induction n rule: string_of_nat.induct)
  case (1 n)
  show ?case
  proof (cases "n < 10")
    case True
    then show ?thesis
      using digit_in [of n] by (subst string_of_nat.simps) simp
  next
    case False
    have "n mod 10 < 10" by simp
    then have "digit (n mod 10) \<in> set ''0123456789''" by (rule digit_in)
    with False "1.IH" show ?thesis
      by (subst string_of_nat.simps) simp
  qed
qed

lemma invalid_dimensions_not_quota:
  "\<not> str_includes (''Invalid embedding dimensions: '' @ string_of_nat n) ''quota''"
proof
  assume "str_includes (''Invalid embedding dimensions: '' @ string_of_nat n) ''quota''"
  then have "CHR ''q'' \<in> set (''Invalid embedding dimensions: '' @ string_of_nat n)"
    using str_includes_hd by fastforce
  then have "CHR ''q'' \<in> set (string_of_nat n)" by simp
  with set_string_of_nat [of n] show False by auto
qed

lemma generateEmbedding_invalid:
  assumes "retryWithBackoff (embeddingCall E (embeddingInput text)) ''Embedding generation'' 3 3000 s = (Inr emb, s1)"
    and "\<forall>vs. emb = Some vs \<longrightarrow> length vs \<noteq> 768"
  shows "generateEmbedding E text s = (Inl (invalidDimensions emb), s1)"
proof (cases emb)
  case None
  with assms show ?thesis
    by (simp add: generateEmbedding_def rethrow_def newError_def invalidDimensions_def)
next
  case (Some vs)
  with assms have "length vs \<noteq> 768" by simp
  with assms(1) Some show ?thesis
    using invalid_dimensions_not_quota [of "length vs"]
    by (simp add: generateEmbedding_def rethrow_def newError_def invalidDimensions_def)
qed

lemma existsByUrl_rows: "existsByUrl E u d = (r, d1) \<Longrightarrow> news_articles d1 = news_articles d"
  by (auto simp: existsByUrl_def Let_def split: option.splits)

lemma create_failed_rows: "create E a d = (Inl e, d1) \<Longrightarrow> news_articles d1 = news_articles d"
  by (auto simp: create_def Let_def split: option.splits if_splits)

lemma processArticle_unsaved:
  "fst (processArticle E img cat a w) \<noteq> Saved \<Longrightarrow>
   news_articles (db (snd (processArticle E img cat a w))) = news_articles (db w)"
proof -
  assume ns: "fst (processArticle E img cat a w) \<noteq> Saved"
  obtain r d1 where ex: "existsByUrl E (url a) (db w) = (r, d1)"
    by (cases "existsByUrl E (url a) (db w)")
  then have d1: "news_articles d1 = news_articles (db w)"
    by (rule existsByUrl_rows)
  show ?thesis
  proof (cases r)
    case (Inl e)
    with ex d1 show ?thesis by (simp add: processArticle_def)
  next
    case (Inr b)
    show ?thesis
    proof (cases b)
      case True
      with ex d1 Inr show ?thesis by (simp add: processArticle_def)
    next
      case False
      obtain g s1 where en: "generateSummaryAndEmbedding E (contentForAI a) (ai w) = (g, s1)"
        by (cases "generateSummaryAndEmbedding E (contentForAI a) (ai w)")
      show ?thesis
      proof (cases g)
        case (Inl e)
        with ex d1 Inr False en show ?thesis by (simp add: processArticle_def)
      next
        case se: (Inr p)
        obtain summary emb where p: "p = (summary, emb)" by (cases p)
        obtain c d2 where cr:
          "create E \<lparr>na_title = title a, na_summary = summary, na_url = url a,
                     na_publishedAt = publishedAt a, na_embedding = emb,
                     na_source = Some (sourceName a), na_category = cat,
                     na_image = img (image a)\<rparr> d1 = (c, d2)"
          by (cases "create E \<lparr>na_title = title a, na_summary = summary, na_url = url a,
                     na_publishedAt = publishedAt a, na_embedding = emb,
                     na_source = Some (sourceName a), na_category = cat,
                     na_image = img (image a)\<rparr> d1")
        show ?thesis
        proof (cases c)
          case (Inl e)
          with cr have "news_articles d2 = news_articles d1"
            using create_failed_rows by blast
          with ex d1 Inr False en se p cr Inl show ?thesis
            by (simp add: processArticle_def)
        next
          case saved: (Inr rw)
          with ex Inr False en se p cr ns show ?thesis
            by (simp add: processArticle_def)
        qed
      qed
    qed
  qed
qed

text \<open>
  C6. When the embedding call comes back with a reply that is not 768 numbers,
  \<open>generateEmbedding\<close> fails with the invalid dimensions error; in the pipeline the
  candidate is then a failure and the table is as it was before the candidate. More
  generally, a candidate that is not saved leaves the table as it was.
\<close>

theorem invalid_embedding_not_persisted:
  "(retryWithBackoff (embeddingCall E (embeddingInput input)) ''Embedding generation'' 3 3000 s =
      (Inr emb, s1) \<and> (\<forall>vs. emb = Some vs \<longrightarrow> length vs \<noteq> 768) \<longrightarrow>
    generateEmbedding E input s = (Inl (invalidDimensions emb), s1)) \<and>
   (existsByUrl E (url a) (db w) = (Inr False, d1) \<and>
    generateSummary E (contentForAI a) (ai w) = (Inr summary, s2) \<and>
    retryWithBackoff (embeddingCall E (embeddingInput (contentForAI a))) ''Embedding generation''
      3 3000 (sleep 2000 s2) = (Inr emb', s3) \<and>
    (\<forall>vs. emb' = Some vs \<longrightarrow> length vs \<noteq> 768) \<longrightarrow>
    processArticle E img cat a w = (Thrown (invalidDimensions emb'), w\<lparr>ai := s3, db := d1\<rparr>) \<and>
    news_articles d1 = news_articles (db w)) \<and>
   (fst (processArticle E img cat a w) \<noteq> Saved \<longrightarrow>
    news_articles (db (snd (processArticle E img cat a w))) = news_articles (db w))"
proof (intro conjI impI)
  assume "retryWithBackoff (embeddingCall E (embeddingInput input)) ''Embedding generation'' 3 3000 s =
      (Inr emb, s1) \<and> (\<forall>vs. emb = Some vs \<longrightarrow> length vs \<noteq> 768)"
  then show "generateEmbedding E input s = (Inl (invalidDimensions emb), s1)"
    using generateEmbedding_invalid by blast
next
  assume h: "existsByUrl E (url a) (db w) = (Inr False, d1) \<and>
    generateSummary E (contentForAI a) (ai w) = (Inr summary, s2) \<and>
    retryWithBackoff (embeddingCall E (embeddingInput (contentForAI a))) ''Embedding generation''
      3 3000 (sleep 2000 s2) = (Inr emb', s3) \<and>
    (\<forall>vs. emb' = Some vs \<longrightarrow> length vs \<noteq> 768)"
  then have "generateEmbedding E (contentForAI a) (sleep 2000 s2) = (Inl (invalidDimensions emb'), s3)"
    using generateEmbedding_invalid by blast
  with h show "processArticle E img cat a w = (Thrown (invalidDimensions emb'), w\<lparr>ai := s3, db := d1\<rparr>)"
    by (simp add: processArticle_def generateSummaryAndEmbedding_def)
  from h show "news_articles d1 = news_articles (db w)"
    using existsByUrl_rows by blast
next
  assume "fst (processArticle E img cat a w) \<noteq> Saved"
  then show "news_articles (db (snd (processArticle E img cat a w))) = news_articles (db w)"
    by (rule processArticle_unsaved)
qed

theorem invalid_embedding_not_persisted_witness:
  "retryWithBackoff (embeddingCall shortEnv (embeddingInput (contentForAI firstArticle)))
      ''Embedding generation'' 3 3000 (sleep 2000 afterFirstCall) =
     (Inr (Some (replicate 700 0)), afterEmbedding) \<and>
   length (replicate 700 (0::real)) \<noteq> 768 \<and>
   existsByUrl shortEnv (url firstArticle) (db freshWorld) =
     (Inr False, \<lparr>news_articles = [], queries = 1\<rparr>) \<and>
   generateSummary shortEnv (contentForAI firstArticle) (ai freshWorld) =
     (Inr ''A summary.'', afterFirstCall) \<and>
   generateEmbedding shortEnv (contentForAI firstArticle) (sleep 2000 afterFirstCall) =
     (Inl (newError ''Embedding generation failed: Invalid embedding dimensions: 700''),
      afterEmbedding) \<and>
   processArticle shortEnv orNull (Some ''general'') firstArticle freshWorld =
     (Thrown (newError ''Embedding generation failed: Invalid embedding dimensions: 700''),
      freshWorld\<lparr>ai := afterEmbedding, db := \<lparr>news_articles = [], queries = 1\<rparr>\<rparr>)"
proof -
  have sm: "generateSummary shortEnv (contentForAI firstArticle) freshAI =
              (Inr ''A summary.'', afterFirstCall)"
    by (simp add: generateSummary_def retryWithBackoff_def retryLoop.simps attemptCall_def
          waitForRateLimit_def Let_def sleep_def freshAI_def afterFirstCall_def summaryCall_def
          shortEnv_def workingEnv_def trim_def isSpace_def
          MAX_REQUESTS_PER_MINUTE_def MIN_REQUEST_INTERVAL_def)
  have em: "retryWithBackoff (embeddingCall shortEnv (embeddingInput (contentForAI firstArticle)))
              ''Embedding generation'' 3 3000 (sleep 2000 afterFirstCall) =
              (Inr (Some (replicate 700 0)), afterEmbedding)"
    by (simp add: retryWithBackoff_def retryLoop.simps attemptCall_def waitForRateLimit_def
          Let_def sleep_def freshAI_def afterFirstCall_def afterEmbedding_def embeddingCall_def
          shortEnv_def workingEnv_def MAX_REQUESTS_PER_MINUTE_def MIN_REQUEST_INTERVAL_def)
  have ex: "existsByUrl shortEnv (url firstArticle) (db freshWorld) =
              (Inr False, \<lparr>news_articles = [], queries = 1\<rparr>)"
    by (simp add: existsByUrl_def Let_def freshWorld_def shortEnv_def workingEnv_def)
  have iv: "invalidDimensions (Some (replicate 700 0)) =
              newError ''Embedding generation failed: Invalid embedding dimensions: 700''"
    by (simp add: invalidDimensions_def string_of_nat.simps digit_def)
  have fw: "ai freshWorld = freshAI"
    by (simp add: freshWorld_def)
  show ?thesis
    using invalid_embedding_not_persisted [where E = shortEnv and input = "contentForAI firstArticle"
         and s = "sleep 2000 afterFirstCall" and emb = "Some (replicate 700 0)"
         and ?s1.0 = afterEmbedding and a = firstArticle and w = freshWorld
         and ?d1.0 = "\<lparr>news_articles = [], queries = 1\<rparr>" and summary = "''A summary.''"
         and ?s2.0 = afterFirstCall and emb' = "Some (replicate 700 0)"
         and ?s3.0 = afterEmbedding and img = orNull and cat = "Some ''general''"]
    by (simp add: sm em ex iv fw)
qed

section \<open>The ingestion loops\<close>

text \<open>Unfolding a whole run on given collaborators.\<close>

lemmas run_defs =
  ingestNews_def searchAndIngest_def ingestNews2_def searchAndIngest2_def fetchNews_def
  searchNews_def processArticle_def existsByUrl_def create_def orNull_def contentForAI_def
  generateSummaryAndEmbedding_def generateSummary_def generateEmbedding_def rethrow_def
  summaryCall_def embeddingCall_def summaryInput_def embeddingInput_def summaryPrompt_def
  trim_def isSpace_def retryWithBackoff_def retryLoop.simps attemptCall_def
  rateLimitDelay_def serverRetryDelay_def isRetryInfo_def waitForRateLimit_def sleep_def
  quotaExhausted_def newError_def noCounters_def batchResult_def Let_def
  MAX_REQUESTS_PER_MINUTE_def MIN_REQUEST_INTERVAL_def string_of_nat.simps digit_def

lemmas example_defs =
  freshAI_def spentAI_def freshWorld_def spentWorld_def workingEnv_def newsEnv_def
  firstArticle_def secondArticle_def


subsection \<open>Counting\<close>

lemma min3: "(if (3::int) < mx then 3 else mx) = min mx 3"
  by simp

lemma ingestLoop_count:
  "ingestLoop E cat as c w = (c', w') \<Longrightarrow>
   success c' + failed c' + skipped c' = success c + failed c + skipped c + length as"
proof (induction as arbitrary: c w)
  case Nil
  then show ?case by simp
next
  case (Cons a rest)
  obtain out w1 where p: "processArticle E orNull cat a w = (out, w1)"
    by (cases "processArticle E orNull cat a w")
  show ?case
  proof (cases out)
    case Skip
    with Cons.prems p have "ingestLoop E cat rest (c\<lparr>skipped := skipped c + 1\<rparr>) w1 = (c', w')"
      by simp
    from Cons.IH [OF this] show ?thesis by simp
  next
    case Saved
    with Cons.prems p have "ingestLoop E cat rest (c\<lparr>success := success c + 1\<rparr>) w1 = (c', w')"
      by simp
    from Cons.IH [OF this] show ?thesis by simp
  next
    case (Thrown e)
    with Cons.prems p have "ingestLoop E cat rest
        (c\<lparr>failed := failed c + 1, errors := errors c @ [message e]\<rparr>) w1 = (c', w')"
      by simp
    from Cons.IH [OF this] show ?thesis by simp
  qed
qed

lemma ingestLoop2_count:
  "ingestLoop2 E cat as c w = (c', w') \<Longrightarrow>
   success c' + failed c' + skipped c' \<le> success c + failed c + skipped c + length as \<and>
   (success c' + failed c' + skipped c' < success c + failed c + skipped c + length as \<longrightarrow>
      errors c' \<noteq> [] \<and>
      last (errors c') = ''Quota exceeded after '' @ string_of_nat (success c') @ '' articles'')"
proof (induction as arbitrary: c w)
  case Nil
  then show ?case by simp
next
  case (Cons a rest)
  obtain out w1 where p: "processArticle E (\<lambda>x. x) cat a w = (out, w1)"
    by (cases "processArticle E (\<lambda>x. x) cat a w")
  show ?case
  proof (cases out)
    case Skip
    with Cons.prems p have "ingestLoop2 E cat rest (c\<lparr>skipped := skipped c + 1\<rparr>) w1 = (c', w')"
      by simp
    from Cons.IH [OF this] show ?thesis by simp
  next
    case Saved
    with Cons.prems p have "ingestLoop2 E cat rest (c\<lparr>success := success c + 1\<rparr>) w1 = (c', w')"
      by simp
    from Cons.IH [OF this] show ?thesis by simp
  next
    case (Thrown e)
    show ?thesis
    proof (cases "str_includes (message e) ''quota exceeded''")
      case True
      with Cons.prems p Thrown have
        "c' = c\<lparr>failed := failed c + 1,
               errors := errors c @
                 [''Quota exceeded after '' @ string_of_nat (success c) @ '' articles'']\<rparr>"
        by (simp add: Let_def)
      then show ?thesis by simp
    next
      case False
      with Cons.prems p Thrown have "ingestLoop2 E cat rest
          (c\<lparr>failed := failed c + 1, errors := errors c @ [url a @ '': '' @ message e]\<rparr>) w1 =
          (c', w')"
        by (simp add: Let_def)
      from Cons.IH [OF this] show ?thesis by simp
    qed
  qed
qed

lemma first_version_result:
  assumes "ingestLoop E cat as noCounters w1 = (c, w')" and "r = batchResult c (length as)"
  shows "total r = length as \<and> success r + failed r + skipped r = total r"
  using ingestLoop_count [OF assms(1)] assms(2) by (simp add: batchResult_def noCounters_def)

lemma second_version_result:
  assumes "ingestLoop2 E cat as noCounters w1 = (c, w')" and "r = batchResult c (length as)"
  shows "total r = length as \<and> success r + failed r + skipped r \<le> total r \<and>
      (success r + failed r + skipped r < total r \<longrightarrow>
         errors r \<noteq> [] \<and>
         last (errors r) =
           ''Quota exceeded after '' @ string_of_nat (success r) @ '' articles'')"
  using ingestLoop2_count [OF assms(1)] assms(2) by (simp add: batchResult_def noCounters_def)

lemma ingestNews_result:
  assumes "ingestNews E x mx w = (Inr r, w')"
  shows "\<exists>as. gnews E TopHeadlines x (min mx 3) = Inr as \<and> total r = length as \<and>
           success r + failed r + skipped r = total r"
proof -
  from assms obtain as c w1 where
    "gnews E TopHeadlines x (min mx 3) = Inr as"
    "ingestLoop E (Some x) as noCounters w1 = (c, w')" "r = batchResult c (length as)"
    unfolding ingestNews_def Let_def min3
    by (auto simp: fetchNews_def split: prod.splits sum.splits)
  with first_version_result show ?thesis by blast
qed

lemma searchAndIngest_result:
  assumes "searchAndIngest E x mx w = (Inr r, w')"
  shows "\<exists>as. gnews E Search x (min mx 3) = Inr as \<and> total r = length as \<and>
           success r + failed r + skipped r = total r"
proof -
  from assms obtain as c w1 where
    "gnews E Search x (min mx 3) = Inr as"
    "ingestLoop E None as noCounters w1 = (c, w')" "r = batchResult c (length as)"
    unfolding searchAndIngest_def Let_def min3
    by (auto simp: searchNews_def split: prod.splits sum.splits)
  with first_version_result show ?thesis by blast
qed

lemma ingestNews2_result:
  assumes "ingestNews2 E x mx w = (Inr r, w')"
  shows "\<exists>as. gnews E TopHeadlines x mx = Inr as \<and> total r = length as \<and>
           success r + failed r + skipped r \<le> total r \<and>
           (success r + failed r + skipped r < total r \<longrightarrow>
              errors r \<noteq> [] \<and>
              last (errors r) =
                ''Quota exceeded after '' @ string_of_nat (success r) @ '' articles'')"
proof -
  from assms obtain as c w1 where
    "gnews E TopHeadlines x mx = Inr as"
    "ingestLoop2 E (Some x) as noCounters w1 = (c, w')" "r = batchResult c (length as)"
    unfolding ingestNews2_def
    by (auto simp: fetchNews_def split: prod.splits sum.splits)
  with second_version_result show ?thesis by blast
qed

lemma searchAndIngest2_result:
  assumes "searchAndIngest2 E x mx w = (Inr r, w')"
  shows "\<exists>as. gnews E Search x mx = Inr as \<and> total r = length as \<and>
           success r + failed r + skipped r \<le> total r \<and>
           (success r + failed r + skipped r < total r \<longrightarrow>
              errors r \<noteq> [] \<and>
              last (errors r) =
                ''Quota exceeded after '' @ string_of_nat (success r) @ '' articles'')"
proof -
  from assms obtain as c w1 where
    "gnews E Search x mx = Inr as"
    "ingestLoop2 E None as noCounters w1 = (c, w')" "r = batchResult c (length as)"
    unfolding searchAndIngest2_def
    by (auto simp: searchNews_def split: prod.splits sum.splits)
  with second_version_result show ?thesis by blast
qed

text \<open>
  C1. Whenever one of the four entry points returns a result, the fetch it made (for
  \<open>min mx 3\<close> articles in the first version of the file, for \<open>mx\<close> in the second) returned
  a list of candidates, and \<open>total\<close> is the length of that list. In the first version the
  three counters add up to \<open>total\<close>. In the second they add up to at most \<open>total\<close>, and
  when they add up to less, the last entry of the error list is the entry that the quota stop
  writes.
\<close>

theorem batch_counters_bounded:
  "(ingestNews E x mx w = (Inr r, w') \<longrightarrow>
      (\<exists>as. gnews E TopHeadlines x (min mx 3) = Inr as \<and> total r = length as \<and>
            success r + failed r + skipped r = total r)) \<and>
   (searchAndIngest E x mx w = (Inr r, w') \<longrightarrow>
      (\<exists>as. gnews E Search x (min mx 3) = Inr as \<and> total r = length as \<and>
            success r + failed r + skipped r = total r)) \<and>
   (ingestNews2 E x mx w = (Inr r, w') \<longrightarrow>
      (\<exists>as. gnews E TopHeadlines x mx = Inr as \<and> total r = length as \<and>
            success r + failed r + skipped r \<le> total r \<and>
            (success r + failed r + skipped r < total r \<longrightarrow>
               errors r \<noteq> [] \<and>
               last (errors r) =
                 ''Quota exceeded after '' @ string_of_nat (success r) @ '' articles''))) \<and>
   (searchAndIngest2 E x mx w = (Inr r, w') \<longrightarrow>
      (\<exists>as. gnews E Search x mx = Inr as \<and> total r = length as \<and>
            success r + failed r + skipped r \<le> total r \<and>
            (success r + failed r + skipped r < total r \<longrightarrow>
               errors r \<noteq> [] \<and>
               last (errors r) =
                 ''Quota exceeded after '' @ string_of_nat (success r) @ '' articles'')))"
  using ingestNews_result [of E x mx w r w'] searchAndIngest_result [of E x mx w r w']
    ingestNews2_result [of E x mx w r w'] searchAndIngest2_result [of E x mx w r w']
  by blast

subsection \<open>Existing URLs\<close>








subsection \<open>The requested number of articles\<close>

lemma requests_processArticle:
  "requests (snd (processArticle E img cat a w)) = requests w"
  by (simp add: processArticle_def split: prod.splits sum.splits)

lemma requests_ingestLoop: "requests (snd (ingestLoop E cat as c w)) = requests w"
proof (induction as arbitrary: c w)
  case Nil
  show ?case by simp
next
  case (Cons a rest)
  obtain out w1 where p: "processArticle E orNull cat a w = (out, w1)"
    by (cases "processArticle E orNull cat a w")
  with requests_processArticle [of E orNull cat a w] have "requests w1 = requests w" by simp
  with p Cons.IH show ?case by (cases out) simp_all
qed

lemma requests_ingestLoop2: "requests (snd (ingestLoop2 E cat as c w)) = requests w"
proof (induction as arbitrary: c w)
  case Nil
  show ?case by simp
next
  case (Cons a rest)
  obtain out w1 where p: "processArticle E (\<lambda>x. x) cat a w = (out, w1)"
    by (cases "processArticle E (\<lambda>x. x) cat a w")
  with requests_processArticle [of E "\<lambda>x. x" cat a w] have "requests w1 = requests w" by simp
  with p Cons.IH show ?case by (cases out) (simp_all add: Let_def)
qed

lemma requests_ingestLoop_pair:
  "ingestLoop E cat as c w = (c', w') \<Longrightarrow> requests w' = requests w"
  using requests_ingestLoop [of E cat as c w] by simp

lemma requests_ingestLoop2_pair:
  "ingestLoop2 E cat as c w = (c', w') \<Longrightarrow> requests w' = requests w"
  using requests_ingestLoop2 [of E cat as c w] by simp

lemma ingestNews_requests:
  "requests (snd (ingestNews E cat mx w)) = requests w @ [(TopHeadlines, cat, min mx 3)]"
  unfolding ingestNews_def Let_def min3
  by (auto simp: fetchNews_def split: prod.splits sum.splits dest!: requests_ingestLoop_pair)

lemma searchAndIngest_requests:
  "requests (snd (searchAndIngest E q mx w)) = requests w @ [(Search, q, min mx 3)]"
  unfolding searchAndIngest_def Let_def min3
  by (auto simp: searchNews_def split: prod.splits sum.splits dest!: requests_ingestLoop_pair)

lemma ingestNews2_requests:
  "requests (snd (ingestNews2 E cat mx w)) = requests w @ [(TopHeadlines, cat, mx)]"
  unfolding ingestNews2_def
  by (auto simp: fetchNews_def split: prod.splits sum.splits dest!: requests_ingestLoop2_pair)

lemma searchAndIngest2_requests:
  "requests (snd (searchAndIngest2 E q mx w)) = requests w @ [(Search, q, mx)]"
  unfolding searchAndIngest2_def
  by (auto simp: searchNews_def split: prod.splits sum.splits dest!: requests_ingestLoop2_pair)

lemma ingestNews_clamped: "ingestNews E cat mx w = ingestNews E cat (min mx 3) w"
  unfolding ingestNews_def Let_def min3 by simp

lemma searchAndIngest_clamped: "searchAndIngest E q mx w = searchAndIngest E q (min mx 3) w"
  unfolding searchAndIngest_def Let_def min3 by simp

text \<open>
  C7, as the code has it. In the first version of the file both entry points request
  \<open>min mx 3\<close> articles, and a call with \<open>mx\<close> is the call with \<open>min mx 3\<close>; in the second
  version both entry points request \<open>mx\<close> articles.
\<close>

theorem requested_max:
  "requests (snd (ingestNews E cat mx w)) = requests w @ [(TopHeadlines, cat, min mx 3)] \<and>
   requests (snd (searchAndIngest E q mx w)) = requests w @ [(Search, q, min mx 3)] \<and>
   ingestNews E cat mx w = ingestNews E cat (min mx 3) w \<and>
   searchAndIngest E q mx w = searchAndIngest E q (min mx 3) w \<and>
   requests (snd (ingestNews2 E cat mx w)) = requests w @ [(TopHeadlines, cat, mx)] \<and>
   requests (snd (searchAndIngest2 E q mx w)) = requests w @ [(Search, q, mx)]"
  using ingestNews_requests [of E cat mx w] searchAndIngest_requests [of E q mx w]
    ingestNews_clamped [of E cat mx w] searchAndIngest_clamped [of E q mx w]
    ingestNews2_requests [of E cat mx w] searchAndIngest2_requests [of E q mx w]
  by blast

subsection \<open>Failures that mention the quota\<close>








text \<open>
  What leaves \<open>retryWithBackoff\<close> after a 429 on the last attempt is a new error without a
  status: no error of a run has status 429.
\<close>

lemma retryLoop_no_429:
  "attempt < maxRetries \<Longrightarrow>
   retryLoop fn operation maxRetries initialDelay attempt lastError s = (Inl e, s') \<Longrightarrow>
   status e \<noteq> Some 429"
proof (induction fn operation maxRetries initialDelay attempt lastError s rule: retryLoop.induct)
  case (1 fn operation maxRetries initialDelay attempt lastError s)
  obtain r s1 where a: "attemptCall fn s = (r, s1)"
    by (cases "attemptCall fn s")
  show ?case
  proof (cases r)
    case (Inr v)
    with "1.prems" a show ?thesis
      by (simp add: retryLoop_succeeded_attempt)
  next
    case (Inl e1)
    note a1 = a [unfolded Inl]
    note ih1 = "1.IH"(1) [OF "1.prems"(1) a1 [symmetric] refl]
    note ih2 = "1.IH"(2) [OF "1.prems"(1) a1 [symmetric] refl]
    from "1.prems" show ?thesis
      unfolding retryLoop_failed_attempt [OF "1.prems"(1) a1]
      using ih1 ih2
      by (auto simp: newError_def split: if_splits)
  qed
qed


subsection \<open>Runs on the example collaborators\<close>

text \<open>
  Each entry point on a batch of three: on a fresh service two candidates are saved and the
  repeated one is skipped; with the day budget spent the first version fails all three and
  the second version stops at the first.
\<close>

theorem batch_counters_bounded_witness:
  "fst (ingestNews newsEnv ''general'' 3 freshWorld) =
     Inr \<lparr>success = 2, failed = 0, skipped = 1, errors = [], total = 3\<rparr> \<and>
   gnews newsEnv TopHeadlines ''general'' (min 3 3) =
     Inr [firstArticle, firstArticle, secondArticle] \<and>
   fst (searchAndIngest newsEnv ''news'' 3 spentWorld) =
     Inr \<lparr>success = 0, failed = 3, skipped = 0,
          errors = [''API quota exceeded. Please reduce batch size or wait.'',
                    ''API quota exceeded. Please reduce batch size or wait.'',
                    ''API quota exceeded. Please reduce batch size or wait.''], total = 3\<rparr> \<and>
   fst (ingestNews2 newsEnv ''general'' 3 spentWorld) =
     Inr \<lparr>success = 0, failed = 1, skipped = 0,
          errors = [''Quota exceeded after 0 articles''], total = 3\<rparr> \<and>
   fst (searchAndIngest2 newsEnv ''news'' 5 freshWorld) =
     Inr \<lparr>success = 2, failed = 0, skipped = 1, errors = [], total = 3\<rparr> \<and>
   total \<lparr>success = 0, failed = 1, skipped = 0,
          errors = [''Quota exceeded after 0 articles''], total = 3\<rparr> =
     length [firstArticle, firstArticle, secondArticle] \<and>
   last (errors \<lparr>success = 0, failed = 1, skipped = 0,
          errors = [''Quota exceeded after 0 articles''], total = 3\<rparr>) =
     ''Quota exceeded after '' @ string_of_nat 0 @ '' articles''"
proof -
  let ?ok = "\<lparr>success = 2, failed = 0, skipped = 1, errors = [], total = 3\<rparr>"
  let ?all = "\<lparr>success = 0, failed = 3, skipped = 0,
          errors = [''API quota exceeded. Please reduce batch size or wait.'',
                    ''API quota exceeded. Please reduce batch size or wait.'',
                    ''API quota exceeded. Please reduce batch size or wait.''], total = 3\<rparr>"
  let ?stop = "\<lparr>success = 0, failed = 1, skipped = 0,
          errors = [''Quota exceeded after 0 articles''], total = 3\<rparr>"
  have g: "gnews newsEnv TopHeadlines ''general'' (min 3 3) =
             Inr [firstArticle, firstArticle, secondArticle]"
    "gnews newsEnv TopHeadlines ''general'' 3 = Inr [firstArticle, firstArticle, secondArticle]"
    by (simp_all add: newsEnv_def workingEnv_def)
  have r1: "fst (ingestNews newsEnv ''general'' 3 freshWorld) = Inr ?ok"
    by (simp add: run_defs example_defs)
  have r2: "fst (searchAndIngest newsEnv ''news'' 3 spentWorld) = Inr ?all"
    by (simp add: run_defs example_defs)
  have r3: "fst (ingestNews2 newsEnv ''general'' 3 spentWorld) = Inr ?stop"
    by (simp add: run_defs example_defs)
  have r4: "fst (searchAndIngest2 newsEnv ''news'' 5 freshWorld) = Inr ?ok"
    by (simp add: run_defs example_defs)
  have p1: "ingestNews newsEnv ''general'' 3 freshWorld =
              (Inr ?ok, snd (ingestNews newsEnv ''general'' 3 freshWorld))"
    using r1 by (simp add: prod_eq_iff)
  have p2: "searchAndIngest newsEnv ''news'' 3 spentWorld =
              (Inr ?all, snd (searchAndIngest newsEnv ''news'' 3 spentWorld))"
    using r2 by (simp add: prod_eq_iff)
  have p3: "ingestNews2 newsEnv ''general'' 3 spentWorld =
              (Inr ?stop, snd (ingestNews2 newsEnv ''general'' 3 spentWorld))"
    using r3 by (simp add: prod_eq_iff)
  have p4: "searchAndIngest2 newsEnv ''news'' 5 freshWorld =
              (Inr ?ok, snd (searchAndIngest2 newsEnv ''news'' 5 freshWorld))"
    using r4 by (simp add: prod_eq_iff)
  from batch_counters_bounded [where E = newsEnv and x = "''general''" and mx = 3 and w = freshWorld
      and r = ?ok and w' = "snd (ingestNews newsEnv ''general'' 3 freshWorld)"] p1
  have t1: "\<exists>as. gnews newsEnv TopHeadlines ''general'' (min 3 3) = Inr as \<and>
                total ?ok = length as \<and> success ?ok + failed ?ok + skipped ?ok = total ?ok"
    by blast
  from batch_counters_bounded [where E = newsEnv and x = "''news''" and mx = 3 and w = spentWorld
      and r = ?all and w' = "snd (searchAndIngest newsEnv ''news'' 3 spentWorld)"] p2
  have t2: "\<exists>as. gnews newsEnv Search ''news'' (min 3 3) = Inr as \<and>
                total ?all = length as \<and> success ?all + failed ?all + skipped ?all = total ?all"
    by blast
  from batch_counters_bounded [where E = newsEnv and x = "''general''" and mx = 3 and w = spentWorld
      and r = ?stop and w' = "snd (ingestNews2 newsEnv ''general'' 3 spentWorld)"] p3
  have t3: "\<exists>as. gnews newsEnv TopHeadlines ''general'' 3 = Inr as \<and> total ?stop = length as \<and>
            success ?stop + failed ?stop + skipped ?stop \<le> total ?stop \<and>
            (success ?stop + failed ?stop + skipped ?stop < total ?stop \<longrightarrow>
               errors ?stop \<noteq> [] \<and>
               last (errors ?stop) =
                 ''Quota exceeded after '' @ string_of_nat (success ?stop) @ '' articles'')"
    by blast
  from batch_counters_bounded [where E = newsEnv and x = "''news''" and mx = 5 and w = freshWorld
      and r = ?ok and w' = "snd (searchAndIngest2 newsEnv ''news'' 5 freshWorld)"] p4
  have t4: "\<exists>as. gnews newsEnv Search ''news'' 5 = Inr as \<and> total ?ok = length as \<and>
            success ?ok + failed ?ok + skipped ?ok \<le> total ?ok"
    by blast
  from t3 g(2) have len: "total ?stop = length [firstArticle, firstArticle, secondArticle]"
    by auto
  from t3 have lst: "last (errors ?stop) =
                 ''Quota exceeded after '' @ string_of_nat 0 @ '' articles''"
    by auto
  from g(1) r1 r2 r3 r4 len lst t1 t2 t4 show ?thesis
    by blast
qed


text \<open>
  C7 as it is stated fails in the second version of the file: a call for 10 articles
  requests 10 and ingests what comes back.
\<close>

theorem requested_max_counterexample:
  "requests (snd (ingestNews2 newsEnv ''general'' 10 freshWorld)) =
     [(TopHeadlines, ''general'', 10)] \<and>
   fst (ingestNews2 newsEnv ''general'' 10 freshWorld) =
     Inr \<lparr>success = 2, failed = 0, skipped = 1, errors = [], total = 3\<rparr>"
  by (simp add: run_defs example_defs)


text \<open>
  A summary model that is always rate limited, in the second version: each candidate is
  recorded as a failure of its own.
\<close>

lemma rate_limited_batch_goes_on:
  "fst (ingestNews2 rateLimitedNewsEnv ''general'' 3 freshWorld) =
     Inr \<lparr>success = 0, failed = 3, skipped = 0,
          errors =
            [''https://example.org/1: Summary generation failed: Rate limit exceeded after 3 attempts. Please reduce batch size or wait.'',
             ''https://example.org/1: Summary generation failed: Rate limit exceeded after 3 attempts. Please reduce batch size or wait.'',
             ''https://example.org/2: Summary generation failed: Rate limit exceeded after 3 attempts. Please reduce batch size or wait.''],
          total = 3\<rparr>"
  by (simp add: run_defs example_defs rateLimitedNewsEnv_def tooManyRequests_def)


end
